theory Spec2Isabelle
  imports Complex_Main
begin

section \<open>editor3d: marker-to-skeleton pipeline and animation runtime\<close>

text \<open>
  A shallow embedding of the parts of the 3D viewer (\<^verbatim>\<open>Model3DViewer\<close>), of the
  auto-rigger modal and of the skeleton-replacer modal that the verified properties are
  about. JavaScript numbers are modelled as \<^typ>\<open>real\<close>: the arithmetic of the source
  is read exactly, without IEEE rounding, and a division whose divisor is zero (the
  source then produces Infinity or NaN) is written out as an error value wherever a
  property depends on it. React refs and state variables become fields of explicit
  state records, a handler becomes a function from state to state, and
  \<^verbatim>\<open>toast\<close> calls are appended to a list of notices.
\<close>

subsection \<open>Vectors and quaternions\<close>

datatype vec3 = Vector3 (vx: real) (vy: real) (vz: real)

datatype quaternion = Quaternion (qx: real) (qy: real) (qz: real) (qw: real)

text \<open>
  The routines of the THREE library that the code calls are not part of the repository;
  they are written here as the library computes them: component-wise vector
  arithmetic, \<^verbatim>\<open>lerpVectors\<close>, the Hamilton product (\<^verbatim>\<open>multiply\<close>), \<^verbatim>\<open>invert\<close> (the
  conjugate), \<^verbatim>\<open>normalize\<close> (with its zero-length case), \<^verbatim>\<open>setFromAxisAngle\<close>
  and \<^verbatim>\<open>slerpQuaternions\<close>. Of the last one the properties below use only the two
  endpoint branches (\<open>t = 0\<close> returns the first and \<open>t = 1\<close> the second argument).
\<close>

definition sub :: "vec3 \<Rightarrow> vec3 \<Rightarrow> vec3" where
  "sub a b = Vector3 (vx a - vx b) (vy a - vy b) (vz a - vz b)"

definition add :: "vec3 \<Rightarrow> vec3 \<Rightarrow> vec3" where
  "add a b = Vector3 (vx a + vx b) (vy a + vy b) (vz a + vz b)"

definition multiplyScalar :: "vec3 \<Rightarrow> real \<Rightarrow> vec3" where
  "multiplyScalar a s = Vector3 (vx a * s) (vy a * s) (vz a * s)"

definition dot :: "vec3 \<Rightarrow> vec3 \<Rightarrow> real" where
  "dot a b = vx a * vx b + vy a * vy b + vz a * vz b"

definition lerpVectors :: "vec3 \<Rightarrow> vec3 \<Rightarrow> real \<Rightarrow> vec3" where
  "lerpVectors v1 v2 alpha =
     Vector3 (vx v1 + (vx v2 - vx v1) * alpha)
             (vy v1 + (vy v2 - vy v1) * alpha)
             (vz v1 + (vz v2 - vz v1) * alpha)"

definition invert :: "quaternion \<Rightarrow> quaternion" where
  "invert q = Quaternion (- qx q) (- qy q) (- qz q) (qw q)"

definition multiply :: "quaternion \<Rightarrow> quaternion \<Rightarrow> quaternion" where
  "multiply a b =
     Quaternion
       (qx a * qw b + qw a * qx b + qy a * qz b - qz a * qy b)
       (qy a * qw b + qw a * qy b + qz a * qx b - qx a * qz b)
       (qz a * qw b + qw a * qz b + qx a * qy b - qy a * qx b)
       (qw a * qw b - qx a * qx b - qy a * qy b - qz a * qz b)"

definition lengthQ :: "quaternion \<Rightarrow> real" where
  "lengthQ q = sqrt (qx q * qx q + qy q * qy q + qz q * qz q + qw q * qw q)"

definition normalize :: "quaternion \<Rightarrow> quaternion" where
  "normalize q =
     (let l = lengthQ q in
      if l = 0 then Quaternion 0 0 0 1
      else let l' = 1 / l in Quaternion (qx q * l') (qy q * l') (qz q * l') (qw q * l'))"

definition setFromAxisAngle :: "vec3 \<Rightarrow> real \<Rightarrow> quaternion" where
  "setFromAxisAngle axis angle =
     (let halfAngle = angle / 2; s = sin halfAngle in
      Quaternion (vx axis * s) (vy axis * s) (vz axis * s) (cos halfAngle))"

definition atan2 :: "real \<Rightarrow> real \<Rightarrow> real" where
  "atan2 y x =
     (if 0 < x then arctan (y / x)
      else if x < 0 then (if 0 \<le> y then arctan (y / x) + pi else arctan (y / x) - pi)
      else if 0 < y then pi / 2
      else if y < 0 then - pi / 2
      else 0)"

definition EPSILON :: real where
  "EPSILON = 1 / 2 ^ 52"

definition slerpQuaternions :: "quaternion \<Rightarrow> quaternion \<Rightarrow> real \<Rightarrow> quaternion" where
  "slerpQuaternions qa qb t =
     (if t = 0 then qa
      else if t = 1 then qb
      else
        let x = qx qa; y = qy qa; z = qz qa; w = qw qa;
            c0 = w * qw qb + x * qx qb + y * qy qb + z * qz qb;
            tq = (if c0 < 0 then Quaternion (- qx qb) (- qy qb) (- qz qb) (- qw qb) else qb);
            cosHalfTheta = (if c0 < 0 then - c0 else c0)
        in if cosHalfTheta \<ge> 1 then qa
           else
             let sqrSinHalfTheta = 1 - cosHalfTheta * cosHalfTheta in
             if sqrSinHalfTheta \<le> EPSILON then
               (let s = 1 - t in
                normalize (Quaternion (s * x + t * qx tq) (s * y + t * qy tq)
                                      (s * z + t * qz tq) (s * w + t * qw tq)))
             else
               (let sinHalfTheta = sqrt sqrSinHalfTheta;
                    halfTheta = atan2 sinHalfTheta cosHalfTheta;
                    ratioA = sin ((1 - t) * halfTheta) / sinHalfTheta;
                    ratioB = sin (t * halfTheta) / sinHalfTheta
                in Quaternion (x * ratioA + qx tq * ratioB) (y * ratioA + qy tq * ratioB)
                              (z * ratioA + qz tq * ratioB) (w * ratioA + qw tq * ratioB)))"

text \<open>
  Where the source divides or calls \<^verbatim>\<open>Math.acos\<close> and a property depends on the
  operation being defined, the operation returns \<open>None\<close> in place of the Infinity or
  NaN that JavaScript produces.
\<close>

definition js_div :: "real \<Rightarrow> real \<Rightarrow> real option" where
  "js_div a b = (if b = 0 then None else Some (a / b))"

definition js_acos :: "real \<Rightarrow> real option" where
  "js_acos v = (if - 1 \<le> v \<and> v \<le> 1 then Some (arccos v) else None)"

subsection \<open>Enthusiasm control (the block of \<^verbatim>\<open>animate\<close> and its handler)\<close>

text \<open>
  \<^verbatim>\<open>neutralPoseRef\<close> maps a bone to the pose captured at load time; bones are
  identified by a number. The traversal of the mesh visits its bones in order; of a
  bone the block reads whether its parent is a bone, and reads and writes its position
  and quaternion. The definitions up to \<open>animateEnthusiasm\<close> are the body of the
  block, as a function of the value of \<^verbatim>\<open>animationEnthusiasm\<close> that the block reads;
  which value that is, is fixed by \<open>initViewer\<close> and \<open>animate\<close> further down.
\<close>

record pose =
  position :: vec3
  rotation :: quaternion

record bone =
  boneId :: nat
  parentIsBone :: bool
  bonePose :: pose

definition enthusiasmFactor :: "real \<Rightarrow> real" where
  "enthusiasmFactor animationEnthusiasm =
     (if animationEnthusiasm < 50 then 0.2 + (animationEnthusiasm / 50) * 0.8
      else 1.0 + ((animationEnthusiasm - 50) / 50) * 1.0)"

text \<open>The delta quaternion \<^verbatim>\<open>neutral^-1 * current\<close>, normalised.\<close>

definition deltaQ :: "quaternion \<Rightarrow> quaternion \<Rightarrow> quaternion" where
  "deltaQ neutralRotation currentRotation =
     normalize (multiply (invert neutralRotation) currentRotation)"

definition acosArgument :: "quaternion \<Rightarrow> real" where
  "acosArgument dq = max (- 1) (min 1 (qw dq))"

text \<open>The rotation of the extrapolation branch (\<^verbatim>\<open>enthusiasmFactor > 1.0\<close>).\<close>

definition extrapolateRotation :: "real \<Rightarrow> quaternion \<Rightarrow> quaternion \<Rightarrow> quaternion option" where
  "extrapolateRotation factor neutralRotation currentRotation =
     (let dq = deltaQ neutralRotation currentRotation in
      case js_acos (acosArgument dq) of
        None \<Rightarrow> None
      | Some halfAngle \<Rightarrow>
          let sinHalfAngle = sin halfAngle in
          if sinHalfAngle > 0.0001 then
            (case (js_div (qx dq) sinHalfAngle, js_div (qy dq) sinHalfAngle,
                   js_div (qz dq) sinHalfAngle) of
               (Some ax, Some ay, Some az) \<Rightarrow>
                 let scaledAngle = 2 * halfAngle * factor;
                     deltaScaled = setFromAxisAngle (Vector3 ax ay az) scaledAngle
                 in Some (multiply neutralRotation deltaScaled)
             | _ \<Rightarrow> None)
          else Some neutralRotation)"

definition sinHalfAngleOf :: "quaternion \<Rightarrow> quaternion \<Rightarrow> real" where
  "sinHalfAngleOf neutralRotation currentRotation =
     sin (arccos (acosArgument (deltaQ neutralRotation currentRotation)))"

text \<open>The pose written to one non-root bone, from the factor, the neutral pose and
  the pose the mixer has just applied.\<close>

definition applyEnthusiasm :: "real \<Rightarrow> pose \<Rightarrow> pose \<Rightarrow> pose option" where
  "applyEnthusiasm factor neutralData current =
     (if factor \<le> 1.0 then
        Some \<lparr>position = lerpVectors (position neutralData) (position current) factor,
              rotation = slerpQuaternions (rotation neutralData) (rotation current) factor\<rparr>
      else
        (case extrapolateRotation factor (rotation neutralData) (rotation current) of
           None \<Rightarrow> None
         | Some q \<Rightarrow>
             Some \<lparr>position =
                     add (position neutralData)
                         (multiplyScalar (sub (position current) (position neutralData)) factor),
                   rotation = q\<rparr>))"

definition enthusiasmBone :: "real \<Rightarrow> (nat \<times> pose) list \<Rightarrow> bone \<Rightarrow> bone option" where
  "enthusiasmBone factor neutralPoseRef b =
     (case map_of neutralPoseRef (boneId b) of
        None \<Rightarrow> Some b
      | Some neutralData \<Rightarrow>
          if parentIsBone b then
            map_option (\<lambda>p. b\<lparr>bonePose := p\<rparr>) (applyEnthusiasm factor neutralData (bonePose b))
          else Some b)"

fun traverseBones :: "(bone \<Rightarrow> bone option) \<Rightarrow> bone list \<Rightarrow> bone list option" where
  "traverseBones f [] = Some []"
| "traverseBones f (b # bs) =
     (case f b of
        None \<Rightarrow> None
      | Some b' \<Rightarrow> (case traverseBones f bs of None \<Rightarrow> None | Some bs' \<Rightarrow> Some (b' # bs')))"

definition animateEnthusiasm :: "real \<Rightarrow> (nat \<times> pose) list \<Rightarrow> bone list \<Rightarrow> bone list option" where
  "animateEnthusiasm animationEnthusiasm neutralPoseRef meshBones =
     (if animationEnthusiasm \<noteq> 50 \<and> neutralPoseRef \<noteq> [] then
        traverseBones (enthusiasmBone (enthusiasmFactor animationEnthusiasm) neutralPoseRef)
          meshBones
      else Some meshBones)"

definition identityRotation :: quaternion where
  "identityRotation = Quaternion 0 0 0 1"

definition neutralArm :: pose where
  "neutralArm = \<lparr>position = Vector3 0 1 0, rotation = Quaternion 0 0 0 1\<rparr>"

definition animatedArm :: pose where
  "animatedArm = \<lparr>position = Vector3 1 3 0, rotation = Quaternion 1 0 0 0\<rparr>"

definition demoBones :: "bone list" where
  "demoBones = [\<lparr>boneId = 0, parentIsBone = False, bonePose = animatedArm\<rparr>,
                \<lparr>boneId = 1, parentIsBone = True, bonePose = animatedArm\<rparr>]"

definition demoNeutral :: "(nat \<times> pose) list" where
  "demoNeutral = [(0, neutralArm), (1, neutralArm)]"

definition extrapolatedArm :: pose where
  "extrapolatedArm = \<lparr>position = Vector3 2 5 0, rotation = Quaternion 0 0 0 (- 1)\<rparr>"

text \<open>
  The block is part of \<^verbatim>\<open>animate\<close>, a closure that \<^verbatim>\<open>initViewer\<close> creates and that
  re-schedules itself with \<^verbatim>\<open>requestAnimationFrame\<close>. \<^verbatim>\<open>initViewer\<close> returns early
  when \<^verbatim>\<open>sceneRef.current\<close> is set, so a mounted viewer creates the closure once. Inside
  the closure the name \<^verbatim>\<open>animationEnthusiasm\<close> is the constant of the render that ran
  \<^verbatim>\<open>initViewer\<close>. The control therefore has two fields: the React state variable
  (\<^verbatim>\<open>useState(50)\<close>), which \<^verbatim>\<open>handleEnthusiasmChange\<close> sets, and the value held by the
  running closure (\<open>None\<close> while the scene is not initialised).
\<close>

record controls =
  animationEnthusiasm :: real
  animateClosure :: "real option"

definition mountedViewer :: controls where
  "mountedViewer = \<lparr>animationEnthusiasm = 50, animateClosure = None\<rparr>"

definition handleEnthusiasmChange :: "real \<Rightarrow> controls \<Rightarrow> controls" where
  "handleEnthusiasmChange enthusiasm st = st\<lparr>animationEnthusiasm := enthusiasm\<rparr>"

fun handleEnthusiasmChanges :: "real list \<Rightarrow> controls \<Rightarrow> controls" where
  "handleEnthusiasmChanges [] st = st"
| "handleEnthusiasmChanges (e # es) st = handleEnthusiasmChanges es (handleEnthusiasmChange e st)"

definition initViewer :: "controls \<Rightarrow> controls" where
  "initViewer st =
     (case animateClosure st of
        Some captured \<Rightarrow> st
      | None \<Rightarrow> st\<lparr>animateClosure := Some (animationEnthusiasm st)\<rparr>)"

text \<open>
  One frame of \<^verbatim>\<open>animate\<close> with a mixer present and playback on: \<open>meshBones\<close> are the
  bones as \<^verbatim>\<open>mixer.update\<close> and the arm-spacing block have left them, the result is
  the bones that are rendered.
\<close>

definition animate :: "controls \<Rightarrow> (nat \<times> pose) list \<Rightarrow> bone list \<Rightarrow> bone list option" where
  "animate st neutralPoseRef meshBones =
     (case animateClosure st of
        None \<Rightarrow> Some meshBones
      | Some captured \<Rightarrow> animateEnthusiasm captured neutralPoseRef meshBones)"

subsection \<open>Playback state of the viewer\<close>

text \<open>
  An \<^verbatim>\<open>AnimationClip\<close> has a name, a duration and its tracks; of a track only the
  name is read by the code below. Clips are objects with identity, so they live in a
  heap (a list indexed by address) and refs hold addresses.
\<close>

record clip =
  clipName :: string
  duration :: real
  tracks :: "string list"

record action =
  clipRef :: nat
  time :: real
  timeScale :: real
  paused :: bool

record mixer =
  cached :: "nat list"

datatype toast =
  SinAnimaciones
  | AnimacionIncompatible
  | AnimacionCargada string
  | ErrorCargaAnimacion
  | FormatoNoSoportado

record playback =
  clips :: "clip list"
  animationMixerRef :: "mixer option"
  animationActionRef :: "action option"
  originalAnimationClipRef :: "nat option"
  rootBoneRef :: "string option"
  isAnimationPlaying :: bool
  inPlace :: bool
  animationSpeed :: real
  totalFrames :: int
  currentFrame :: int
  animationDuration :: real
  toasts :: "toast list"

subsection \<open>Playback-rate control\<close>

text \<open>\<^verbatim>\<open>handleSpeedChange\<close>: the state variable is always set; the time scale is
  written only when an action exists.\<close>

definition handleSpeedChange :: "real \<Rightarrow> playback \<Rightarrow> playback" where
  "handleSpeedChange speed st =
     (let st1 = st\<lparr>animationSpeed := speed\<rparr> in
      case animationActionRef st1 of
        None \<Rightarrow> st1
      | Some a \<Rightarrow>
          let timeScale' =
                (if speed < 50 then 0.1 + (speed / 50) * 0.9
                 else 1.0 + ((speed - 50) / 50) * 2.0)
          in st1\<lparr>animationActionRef := Some (a\<lparr>timeScale := timeScale'\<rparr>)\<rparr>)"

definition actionTimeScale :: "playback \<Rightarrow> real option" where
  "actionTimeScale st = map_option timeScale (animationActionRef st)"

subsection \<open>In-place clips and the compatibility gate\<close>

text \<open>\<^verbatim>\<open>String.prototype.startsWith\<close> and \<^verbatim>\<open>String.prototype.includes\<close>.\<close>

fun startsWith :: "string \<Rightarrow> string \<Rightarrow> bool" where
  "startsWith s [] = True"
| "startsWith [] (c # cs) = False"
| "startsWith (d # ds) (c # cs) = (d = c \<and> startsWith ds cs)"

fun includes_str :: "string \<Rightarrow> string \<Rightarrow> bool" where
  "includes_str [] needle = (needle = [])"
| "includes_str (d # ds) needle = (startsWith (d # ds) needle \<or> includes_str ds needle)"

text \<open>
  \<^verbatim>\<open>createInPlaceClip\<close>: without a root bone the original clip itself is returned;
  otherwise a new clip object is allocated whose track array is the filtered copy
  (\<^verbatim>\<open>Array.prototype.filter\<close> builds a new array). The result is the address of the
  clip to use and the heap. The \<^verbatim>\<open>AnimationClip\<close> constructor recomputes a negative
  duration only; the duration of a constructed clip is never negative, so the original's
  duration is taken over.
\<close>

definition isRootPositionTrack :: "string \<Rightarrow> string \<Rightarrow> bool" where
  "isRootPositionTrack rootBoneName trackName =
     (includes_str trackName rootBoneName \<and> includes_str trackName ''.position'')"

definition createInPlaceClip :: "nat \<Rightarrow> playback \<Rightarrow> nat \<times> playback" where
  "createInPlaceClip originalClip st =
     (case rootBoneRef st of
        None \<Rightarrow> (originalClip, st)
      | Some rootBoneName \<Rightarrow>
          let oc = clips st ! originalClip;
              filteredTracks = filter (\<lambda>track. \<not> isRootPositionTrack rootBoneName track) (tracks oc);
              inPlaceClip = \<lparr>clipName = clipName oc @ ''_inPlace'', duration = duration oc,
                             tracks = filteredTracks\<rparr>
          in (length (clips st), st\<lparr>clips := clips st @ [inPlaceClip]\<rparr>))"

text \<open>
  The mixer keeps the clips it holds an action for. \<^verbatim>\<open>clipAction\<close> is called here
  only for a clip without a cached action (the mixer is new, or the only cached clip has
  just been uncached), so it creates an action with the library's defaults;
  \<^verbatim>\<open>reset\<close> sets time 0 and clears \<^verbatim>\<open>paused\<close>, \<^verbatim>\<open>play\<close> clears \<^verbatim>\<open>paused\<close>.
\<close>

definition uncacheClip :: "nat \<Rightarrow> mixer \<Rightarrow> mixer" where
  "uncacheClip c m = m\<lparr>cached := removeAll c (cached m)\<rparr>"

definition clipAction :: "nat \<Rightarrow> mixer \<Rightarrow> action \<times> mixer" where
  "clipAction c m =
     (\<lparr>clipRef = c, time = 0, timeScale = 1, paused = False\<rparr>, m\<lparr>cached := c # cached m\<rparr>)"

definition reset :: "action \<Rightarrow> action" where
  "reset a = a\<lparr>time := 0, paused := False\<rparr>"

definition play :: "action \<Rightarrow> action" where
  "play a = a\<lparr>paused := False\<rparr>"

text \<open>The effect that runs when \<^verbatim>\<open>inPlace\<close> has changed.\<close>

definition inPlaceEffect :: "playback \<Rightarrow> playback" where
  "inPlaceEffect st =
     (case (animationMixerRef st, originalAnimationClipRef st) of
        (Some mixer, Some originalClip) \<Rightarrow>
          (case animationActionRef st of
             None \<Rightarrow> st
           | Some current \<Rightarrow>
               let currentTime = time current;
                   wasPlaying = isAnimationPlaying st;
                   mixer1 = uncacheClip (clipRef current) mixer;
                   (clipToUse, st1) =
                     (if inPlace st then createInPlaceClip originalClip st else (originalClip, st));
                   (created, mixer2) = clipAction clipToUse mixer1;
                   newAction = play ((reset created)\<lparr>time := currentTime\<rparr>);
                   newAction' = (if \<not> wasPlaying then newAction\<lparr>paused := True\<rparr> else newAction)
               in st1\<lparr>animationMixerRef := Some mixer2, animationActionRef := Some newAction'\<rparr>)
      | _ \<Rightarrow> st)"

text \<open>\<^verbatim>\<open>handleInPlaceChange\<close> sets the state variable; React re-renders and runs the
  effect only when the value has changed.\<close>

definition handleInPlaceChange :: "bool \<Rightarrow> playback \<Rightarrow> playback" where
  "handleInPlaceChange enabled st =
     (if inPlace st = enabled then st else inPlaceEffect (st\<lparr>inPlace := enabled\<rparr>))"

fun toggles :: "bool list \<Rightarrow> playback \<Rightarrow> playback" where
  "toggles [] st = st"
| "toggles (enabled # rest) st = toggles rest (handleInPlaceChange enabled st)"

definition actionTracks :: "playback \<Rightarrow> string list option" where
  "actionTracks st = map_option (\<lambda>a. tracks (clips st ! clipRef a)) (animationActionRef st)"

text \<open>
  \<^verbatim>\<open>onAnimationLoad\<close>: the callback of the animation loaders. Its arguments are the
  value of \<^verbatim>\<open>inPlace\<close> that the closure captured when the effect ran, and the
  \<^verbatim>\<open>animations\<close> property of the loaded object (\<open>None\<close> when the property is
  missing), as addresses of clips in the heap. The restart of the clock is left out.
\<close>

definition hasMixamoTracks :: "clip \<Rightarrow> bool" where
  "hasMixamoTracks c = list_ex (\<lambda>track. startsWith track ''mixamorig'') (tracks c)"

definition onAnimationLoad :: "bool \<Rightarrow> nat list option \<Rightarrow> playback \<Rightarrow> playback" where
  "onAnimationLoad inPlaceCaptured animations st =
     (case animations of
        None \<Rightarrow> st\<lparr>toasts := toasts st @ [SinAnimaciones]\<rparr>
      | Some [] \<Rightarrow> st\<lparr>toasts := toasts st @ [SinAnimaciones]\<rparr>
      | Some (clip # _) \<Rightarrow>
          let mixer = \<lparr>cached = []\<rparr>;
              st1 = st\<lparr>animationMixerRef := Some mixer\<rparr>
          in if \<not> hasMixamoTracks (clips st1 ! clip) then
               st1\<lparr>toasts := toasts st1 @ [AnimacionIncompatible]\<rparr>
             else
               let st2 = st1\<lparr>originalAnimationClipRef := Some clip\<rparr>;
                   (clipToUse, st3) =
                     (if inPlaceCaptured then createInPlaceClip clip st2 else (clip, st2));
                   (created, mixer') = clipAction clipToUse mixer;
                   action = play (reset created);
                   duration' = duration (clips st3 ! clip)
               in st3\<lparr>animationMixerRef := Some mixer',
                       animationActionRef := Some action,
                       totalFrames := \<lfloor>duration' * 30\<rfloor>,
                       animationDuration := duration',
                       currentFrame := 0,
                       isAnimationPlaying := True,
                       toasts := toasts st3 @ [AnimacionCargada (clipName (clips st3 ! clip))]\<rparr>)"

definition demoAction :: action where
  "demoAction = \<lparr>clipRef = 0, time = 2, timeScale = 1, paused = False\<rparr>"

definition demoClip :: clip where
  "demoClip = \<lparr>clipName = ''Walk'', duration = 4,
     tracks = [''mixamorigHips.position'', ''mixamorigHips.quaternion'',
               ''mixamorigSpine.quaternion'', ''mixamorigLeftArm.position'']\<rparr>"

definition demoPlayback :: playback where
  "demoPlayback = \<lparr>clips = [demoClip],
     animationMixerRef = Some \<lparr>cached = [0]\<rparr>,
     animationActionRef = Some demoAction,
     originalAnimationClipRef = Some 0,
     rootBoneRef = Some ''mixamorigHips'',
     isAnimationPlaying = True, inPlace = False, animationSpeed = 50,
     totalFrames = 120, currentFrame = 60, animationDuration = 4, toasts = []\<rparr>"

text \<open>A state in which the action plays the original clip whenever in-place is off
  (so it is after \<^verbatim>\<open>onAnimationLoad\<close>, when the captured value of \<^verbatim>\<open>inPlace\<close> is the
  current one).\<close>

definition offPlaysOriginal :: "playback \<Rightarrow> bool" where
  "offPlaysOriginal st =
     (case animationActionRef st of
        None \<Rightarrow> True
      | Some a \<Rightarrow> inPlace st \<or> Some (clipRef a) = originalAnimationClipRef st)"



subsection \<open>Auto-rigger: markers and bone hierarchy\<close>

record RigMarker =
  markerId :: string
  markerLabel :: string
  markerPosition :: vec3
  placed :: bool

text \<open>
  A \<^verbatim>\<open>THREE.Bone\<close> created by the rigger: its name, its position (relative to the
  parent), the parent and the children. \<^verbatim>\<open>boneMap\<close> holds at most one bone per marker
  id, so the bones are kept in a store keyed by marker id and links are keys.
\<close>

record joint =
  jointName :: string
  jointPosition :: vec3
  jointParent :: "string option"
  jointChildren :: "string list"

type_synonym boneStore = "string \<Rightarrow> joint option"

text \<open>The bone name \<^verbatim>\<open>mixamorig\<close> followed by the marker id with its first character
  in upper case (marker ids are ASCII).\<close>

definition toUpperCase_char :: "char \<Rightarrow> char" where
  "toUpperCase_char c =
     (case map_of (zip ''abcdefghijklmnopqrstuvwxyz'' ''ABCDEFGHIJKLMNOPQRSTUVWXYZ'') c of
        Some u \<Rightarrow> u
      | None \<Rightarrow> c)"

definition boneNameOf :: "string \<Rightarrow> string" where
  "boneNameOf i = ''mixamorig'' @ (case i of [] \<Rightarrow> [] | c # cs \<Rightarrow> toUpperCase_char c # cs)"

definition getMarkerPosition :: "RigMarker list \<Rightarrow> string \<Rightarrow> vec3 option" where
  "getMarkerPosition markers i =
     (case find (\<lambda>m. markerId m = i) markers of
        None \<Rightarrow> None
      | Some marker \<Rightarrow> if placed marker then Some (markerPosition marker) else None)"

definition hierarchy :: "(string \<times> string list) list" where
  "hierarchy =
     [(''groin'', [''neckBase'', ''leftKnee'', ''rightKnee'']),
      (''neckBase'', [''chin'', ''leftShoulder'', ''rightShoulder'']),
      (''leftShoulder'', [''leftElbow'']),
      (''leftElbow'', [''leftWrist'']),
      (''rightShoulder'', [''rightElbow'']),
      (''rightElbow'', [''rightWrist'']),
      (''leftKnee'', [''leftAnkle'']),
      (''rightKnee'', [''rightAnkle''])]"

definition newBone :: "string \<Rightarrow> joint" where
  "newBone n = \<lparr>jointName = n, jointPosition = Vector3 0 0 0, jointParent = None,
                jointChildren = []\<rparr>"

definition createBones :: "RigMarker list \<Rightarrow> boneStore" where
  "createBones markers =
     foldl (\<lambda>boneMap marker.
              if placed marker
              then boneMap(markerId marker \<mapsto> newBone (boneNameOf (markerId marker)))
              else boneMap)
           Map.empty markers"

text \<open>
  \<^verbatim>\<open>parentBone.add(childBone)\<close> of \<^verbatim>\<open>Object3D\<close>: an object is not added to itself;
  the child is first removed from its former parent, then its parent is set and it is
  appended to the children of the new parent.
\<close>

definition addBone :: "string \<Rightarrow> string \<Rightarrow> boneStore \<Rightarrow> boneStore" where
  "addBone p c m =
     (if p = c then m
      else
        (case (m p, m c) of
           (Some pb, Some cb) \<Rightarrow>
             let m1 = (case jointParent cb of
                         None \<Rightarrow> m
                       | Some q \<Rightarrow>
                           (case m q of
                              None \<Rightarrow> m
                            | Some qb \<Rightarrow>
                                m(q \<mapsto> qb\<lparr>jointChildren := remove1 c (jointChildren qb)\<rparr>)));
                 m2 = (case m1 c of
                         None \<Rightarrow> m1
                       | Some cb1 \<Rightarrow> m1(c \<mapsto> cb1\<lparr>jointParent := Some p\<rparr>))
             in (case m2 p of
                   None \<Rightarrow> m2
                 | Some pb2 \<Rightarrow> m2(p \<mapsto> pb2\<lparr>jointChildren := jointChildren pb2 @ [c]\<rparr>))
         | _ \<Rightarrow> m))"

text \<open>The two nested \<^verbatim>\<open>forEach\<close> iterations over the hierarchy table: an entry whose
  parent bone or position is missing is skipped, and so is a child without bone or
  position.\<close>

definition linkChild :: "RigMarker list \<Rightarrow> string \<Rightarrow> vec3 \<Rightarrow> boneStore \<Rightarrow> string \<Rightarrow> boneStore" where
  "linkChild markers parentId parentPos m childId =
     (case (m childId, getMarkerPosition markers childId) of
        (Some childBone, Some childPos) \<Rightarrow>
          let relativePos = sub childPos parentPos
          in addBone parentId childId (m(childId \<mapsto> childBone\<lparr>jointPosition := relativePos\<rparr>))
      | _ \<Rightarrow> m)"

definition linkChildren :: "RigMarker list \<Rightarrow> boneStore \<Rightarrow> string \<times> string list \<Rightarrow> boneStore" where
  "linkChildren markers m entry =
     (case entry of (parentId, childrenIds) \<Rightarrow>
        (case (m parentId, getMarkerPosition markers parentId) of
           (Some parentBone, Some parentPos) \<Rightarrow>
             foldl (linkChild markers parentId parentPos) m childrenIds
         | _ \<Rightarrow> m))"

definition createBoneHierarchy :: "RigMarker list \<Rightarrow> (string \<times> boneStore) option" where
  "createBoneHierarchy markers =
     (let boneMap = createBones markers;
          m = foldl (linkChildren markers) boneMap hierarchy
      in case m ''groin'' of
           None \<Rightarrow> None
         | Some rootBone \<Rightarrow>
             Some (''groin'',
               (case getMarkerPosition markers ''groin'' of
                  Some groinPos \<Rightarrow> m(''groin'' \<mapsto> rootBone\<lparr>jointPosition := groinPos\<rparr>)
                | None \<Rightarrow> m)))"

text \<open>\<^verbatim>\<open>Object3D.traverse\<close>, in pre-order; the fuel bounds the depth, and \<open>None\<close>
  means that it ran out or that a link is dangling.\<close>

fun traverse :: "nat \<Rightarrow> boneStore \<Rightarrow> string \<Rightarrow> string list option"
  and traverseAll :: "nat \<Rightarrow> boneStore \<Rightarrow> string list \<Rightarrow> string list option" where
  "traverse 0 m k = None"
| "traverse (Suc n) m k =
     (case m k of
        None \<Rightarrow> None
      | Some b \<Rightarrow> map_option (\<lambda>ks. k # ks) (traverseAll n m (jointChildren b)))"
| "traverseAll n m [] = Some []"
| "traverseAll n m (k # ks) =
     (case traverse n m k of
        None \<Rightarrow> None
      | Some xs \<Rightarrow> map_option (\<lambda>ys. xs @ ys) (traverseAll n m ks))"

definition markerIds :: "string list" where
  "markerIds = [''chin'', ''neckBase'', ''leftShoulder'', ''rightShoulder'', ''leftElbow'',
     ''rightElbow'', ''leftWrist'', ''rightWrist'', ''groin'', ''leftKnee'', ''rightKnee'',
     ''leftAnkle'', ''rightAnkle'']"


text \<open>The initial markers of the modal (labels in ASCII) and \<^verbatim>\<open>handleMarkerClick\<close>,
  which places a marker at its staging position.\<close>

definition initialMarkers :: "RigMarker list" where
  "initialMarkers =
     [\<lparr>markerId = ''chin'', markerLabel = ''Barbilla'', markerPosition = Vector3 0 0.5 0.3, placed = False\<rparr>,
      \<lparr>markerId = ''neckBase'', markerLabel = ''Base del Cuello'', markerPosition = Vector3 0 0.3 0.2, placed = False\<rparr>,
      \<lparr>markerId = ''leftShoulder'', markerLabel = ''Hombro Izquierdo'', markerPosition = Vector3 (- 0.5) 0.3 0.1, placed = False\<rparr>,
      \<lparr>markerId = ''rightShoulder'', markerLabel = ''Hombro Derecho'', markerPosition = Vector3 0.5 0.3 0.1, placed = False\<rparr>,
      \<lparr>markerId = ''leftElbow'', markerLabel = ''Codo Izquierdo'', markerPosition = Vector3 (- 0.7) 0 0.2, placed = False\<rparr>,
      \<lparr>markerId = ''rightElbow'', markerLabel = ''Codo Derecho'', markerPosition = Vector3 0.7 0 0.2, placed = False\<rparr>,
      \<lparr>markerId = ''leftWrist'', markerLabel = ''Muneca Izquierda'', markerPosition = Vector3 (- 0.8) (- 0.5) 0.2, placed = False\<rparr>,
      \<lparr>markerId = ''rightWrist'', markerLabel = ''Muneca Derecha'', markerPosition = Vector3 0.8 (- 0.5) 0.2, placed = False\<rparr>,
      \<lparr>markerId = ''groin'', markerLabel = ''Ingle'', markerPosition = Vector3 0 (- 0.7) 0.15, placed = False\<rparr>,
      \<lparr>markerId = ''leftKnee'', markerLabel = ''Rodilla Izquierda'', markerPosition = Vector3 (- 0.2) (- 1.2) 0.2, placed = False\<rparr>,
      \<lparr>markerId = ''rightKnee'', markerLabel = ''Rodilla Derecha'', markerPosition = Vector3 0.2 (- 1.2) 0.2, placed = False\<rparr>,
      \<lparr>markerId = ''leftAnkle'', markerLabel = ''Tobillo Izquierdo'', markerPosition = Vector3 (- 0.2) (- 1.9) 0.1, placed = False\<rparr>,
      \<lparr>markerId = ''rightAnkle'', markerLabel = ''Tobillo Derecho'', markerPosition = Vector3 0.2 (- 1.9) 0.1, placed = False\<rparr>]"

fun findIndex :: "('a \<Rightarrow> bool) \<Rightarrow> 'a list \<Rightarrow> int" where
  "findIndex P [] = - 1"
| "findIndex P (x # xs) =
     (if P x then 0 else (let r = findIndex P xs in if r < 0 then - 1 else r + 1))"

definition handleMarkerClick :: "string \<Rightarrow> RigMarker list \<Rightarrow> RigMarker list" where
  "handleMarkerClick i markers =
     (let markerIndex = findIndex (\<lambda>m. markerId m = i) markers;
          offsetY = real_of_int markerIndex * 0.3;
          initialPosition = Vector3 (- 2.5) (1.5 - offsetY) 0
      in map (\<lambda>m. if markerId m = i then m\<lparr>placed := True, markerPosition := initialPosition\<rparr> else m)
             markers)"

definition stagedMarkers :: "RigMarker list" where
  "stagedMarkers = foldl (\<lambda>ms i. handleMarkerClick i ms) initialMarkers markerIds"

text \<open>Executable forms of the properties of a synthesized skeleton.\<close>

definition jointOffsetOk :: "RigMarker list \<Rightarrow> boneStore \<Rightarrow> string \<Rightarrow> string \<Rightarrow> bool" where
  "jointOffsetOk ms m p c =
     (case m c of
        None \<Rightarrow> False
      | Some b \<Rightarrow>
          (case getMarkerPosition ms c of
             None \<Rightarrow> False
           | Some cp \<Rightarrow>
               (case getMarkerPosition ms p of
                  None \<Rightarrow> False
                | Some pp \<Rightarrow> jointPosition b = sub cp pp \<and> jointParent b = Some p)))"

definition offsetsOk :: "RigMarker list \<Rightarrow> boneStore \<Rightarrow> bool" where
  "offsetsOk ms m =
     list_all (\<lambda>(p, cs). list_all (\<lambda>c. jointOffsetOk ms m p c) cs) hierarchy"

definition rootOk :: "RigMarker list \<Rightarrow> boneStore \<Rightarrow> bool" where
  "rootOk ms m =
     (case (m ''groin'', getMarkerPosition ms ''groin'') of
        (Some b, Some g) \<Rightarrow> jointPosition b = g \<and> jointParent b = None
                             \<and> jointName b = ''mixamorigGroin''
      | _ \<Rightarrow> False)"

definition preorder :: "string list" where
  "preorder = [''groin'', ''neckBase'', ''chin'', ''leftShoulder'', ''leftElbow'', ''leftWrist'',
      ''rightShoulder'', ''rightElbow'', ''rightWrist'', ''leftKnee'', ''leftAnkle'',
      ''rightKnee'', ''rightAnkle'']"

definition allPlaced :: "string list \<Rightarrow> vec3 list \<Rightarrow> RigMarker list" where
  "allPlaced ls ps =
     map (\<lambda>(i, l, p). \<lparr>markerId = i, markerLabel = l, markerPosition = p, placed = True\<rparr>)
         (zip markerIds (zip ls ps))"

definition synthesisOk :: "RigMarker list \<Rightarrow> bool" where
  "synthesisOk ms =
     (case createBoneHierarchy ms of
        None \<Rightarrow> False
      | Some (r, m) \<Rightarrow> r = ''groin'' \<and> traverse 13 m r = Some preorder
                         \<and> offsetsOk ms m \<and> rootOk ms m)"

text \<open>
  The refs of the rigger that \<^verbatim>\<open>handleGenerateBones\<close> reads and writes. The line
  group \<^verbatim>\<open>skeletonRef\<close> is represented by the (parent, child) pairs it draws a
  line for.
\<close>

datatype sceneObject = BoneRoot string boneStore | OtherObject nat

datatype rigToast = ErrorJerarquia | HuesosGenerados

definition skeletonLines :: "string \<times> boneStore \<Rightarrow> (string \<times> string) list" where
  "skeletonLines sk =
     (case sk of (r, m) \<Rightarrow>
        (case traverse 13 m r of
           None \<Rightarrow> []
         | Some ks \<Rightarrow>
             concat (map (\<lambda>k. case m k of
                                None \<Rightarrow> []
                              | Some b \<Rightarrow> (case jointParent b of None \<Rightarrow> [] | Some p \<Rightarrow> [(p, k)]))
                         ks)))"

record rigger =
  markers :: "RigMarker list"
  sceneRef :: "sceneObject list option"
  skeletonRef :: "(string \<times> string) list option"
  bonesGroupRef :: "(string \<times> boneStore) option"
  bonesGenerated :: bool
  rigToasts :: "rigToast list"

definition handleGenerateBones :: "rigger \<Rightarrow> rigger" where
  "handleGenerateBones st =
     (case (skeletonRef st, sceneRef st) of
        (Some lines, Some scene) \<Rightarrow>
          (case createBoneHierarchy (markers st) of
             None \<Rightarrow> st\<lparr>rigToasts := rigToasts st @ [ErrorJerarquia]\<rparr>
           | Some rootBone \<Rightarrow>
               let scene1 = (case bonesGroupRef st of
                               None \<Rightarrow> scene
                             | Some (r0, m0) \<Rightarrow> remove1 (BoneRoot r0 m0) scene);
                   scene2 = scene1 @ [BoneRoot (fst rootBone) (snd rootBone)]
               in st\<lparr>sceneRef := Some scene2,
                      bonesGroupRef := Some rootBone,
                      skeletonRef := Some (skeletonLines rootBone),
                      bonesGenerated := True,
                      rigToasts := rigToasts st @ [HuesosGenerados]\<rparr>)
      | _ \<Rightarrow> st)"

definition previousSkeleton :: "string \<times> boneStore" where
  "previousSkeleton = (''groin'', [''groin'' \<mapsto> newBone ''mixamorigGroin''])"

definition resetRigger :: rigger where
  "resetRigger = \<lparr>markers = handleMarkerClick ''chin'' initialMarkers,
     sceneRef = Some [OtherObject 0, BoneRoot (fst previousSkeleton) (snd previousSkeleton)],
     skeletonRef = Some [],
     bonesGroupRef = Some previousSkeleton,
     bonesGenerated = True,
     rigToasts = []\<rparr>"

subsection \<open>Loaded models, bounding boxes and normalisation\<close>

text \<open>
  A loaded model is the root \<^verbatim>\<open>Object3D\<close> handed to \<^verbatim>\<open>onLoad\<close>: its identity, the
  position, rotation (as the rotation matrix of its quaternion) and scale of the root,
  the GPU resources (geometries and materials) of its meshes, and the points that span
  its bounding box, given in the frame of the root (the corners of the meshes' geometry
  boxes, carried through the transforms below the root). A point \<open>p\<close> of the root frame
  lies in the world at \<open>position + rotation (scale * p)\<close>.
\<close>

datatype mat3 = Matrix3 vec3 vec3 vec3

definition applyMatrix3 :: "mat3 \<Rightarrow> vec3 \<Rightarrow> vec3" where
  "applyMatrix3 M v = (case M of Matrix3 r1 r2 r3 \<Rightarrow> Vector3 (dot r1 v) (dot r2 v) (dot r3 v))"

definition multiplyVectors :: "vec3 \<Rightarrow> vec3 \<Rightarrow> vec3" where
  "multiplyVectors a b = Vector3 (vx a * vx b) (vy a * vy b) (vz a * vz b)"

record object3d =
  objId :: nat
  objPosition :: vec3
  objRotation :: mat3
  objScale :: vec3
  objPoints :: "vec3 list"
  objResources :: "nat list"

definition worldPoint :: "object3d \<Rightarrow> vec3 \<Rightarrow> vec3" where
  "worldPoint ob p =
     add (objPosition ob) (applyMatrix3 (objRotation ob) (multiplyVectors (objScale ob) p))"

text \<open>
  \<^verbatim>\<open>Box3.setFromObject\<close> makes the box empty and expands it by the world points;
  an empty box (no geometry) is \<open>None\<close>. Its \<^verbatim>\<open>min\<close> is then +Infinity in the source.
\<close>

definition vmin :: "vec3 \<Rightarrow> vec3 \<Rightarrow> vec3" where
  "vmin a b = Vector3 (min (vx a) (vx b)) (min (vy a) (vy b)) (min (vz a) (vz b))"

definition vmax :: "vec3 \<Rightarrow> vec3 \<Rightarrow> vec3" where
  "vmax a b = Vector3 (max (vx a) (vx b)) (max (vy a) (vy b)) (max (vz a) (vz b))"

record box3 =
  boxMin :: vec3
  boxMax :: vec3

definition expandByPoints :: "vec3 list \<Rightarrow> box3 option" where
  "expandByPoints ws =
     (case ws of
        [] \<Rightarrow> None
      | w # ws' \<Rightarrow> Some \<lparr>boxMin = fold vmin ws' w, boxMax = fold vmax ws' w\<rparr>)"

definition setFromObject :: "object3d \<Rightarrow> box3 option" where
  "setFromObject ob = expandByPoints (map (worldPoint ob) (objPoints ob))"

definition getSize :: "box3 \<Rightarrow> vec3" where
  "getSize b = sub (boxMax b) (boxMin b)"

definition getCenter :: "box3 \<Rightarrow> vec3" where
  "getCenter b = multiplyScalar (add (boxMin b) (boxMax b)) 0.5"

definition maxDimOf :: "box3 \<Rightarrow> real" where
  "maxDimOf b = (let size = getSize b in max (max (vx size) (vy size)) (vz size))"

text \<open>
  The normalisation of \<^verbatim>\<open>onLoad\<close> in the viewer (target size 4, the scale is
  multiplied onto the root's scale) and in the auto-rigger (target size 3, the scale
  replaces the root's scale). The division \<^verbatim>\<open>target / maxDim\<close> is by zero for an empty
  or zero-extent box; the source then continues with Infinity and NaN, which is the
  result \<open>None\<close> here.
\<close>

definition normalizeViewer :: "object3d \<Rightarrow> object3d option" where
  "normalizeViewer ob =
     (case setFromObject ob of
        None \<Rightarrow> None
      | Some box \<Rightarrow>
          let center = getCenter box;
              mn = boxMin box;
              maxDim = maxDimOf box
          in (case js_div 4 maxDim of
                None \<Rightarrow> None
              | Some scale \<Rightarrow>
                  let gridY = - 2;
                      scaledMin = multiplyScalar mn scale;
                      scaledCenter = multiplyScalar center scale
                  in Some (ob\<lparr>objScale := multiplyScalar (objScale ob) scale,
                              objPosition := Vector3 (- vx scaledCenter) (gridY - vy scaledMin)
                                               (- vz scaledCenter)\<rparr>)))"

definition normalizeRigger :: "object3d \<Rightarrow> object3d option" where
  "normalizeRigger ob =
     (case setFromObject ob of
        None \<Rightarrow> None
      | Some box \<Rightarrow>
          let center = getCenter box;
              mn = boxMin box;
              maxDim = maxDimOf box;
              targetSize = 3
          in (case js_div targetSize maxDim of
                None \<Rightarrow> None
              | Some scale \<Rightarrow>
                  let gridY = - 2;
                      scaledMin = multiplyScalar mn scale;
                      scaledCenter = multiplyScalar center scale
                  in Some (ob\<lparr>objScale := Vector3 scale scale scale,
                              objPosition := Vector3 (- vx scaledCenter) (gridY - vy scaledMin)
                                               (- vz scaledCenter)\<rparr>)))"

text \<open>The output guarantee: the recomputed box has its minimum Y at -2 and its centre at
  X = 0 and Z = 0.\<close>

definition groundedAndCentred :: "object3d \<Rightarrow> bool" where
  "groundedAndCentred ob =
     (case setFromObject ob of
        None \<Rightarrow> False
      | Some box \<Rightarrow> vy (boxMin box) = - 2 \<and> vx (getCenter box) = 0 \<and> vz (getCenter box) = 0)"

definition identity3 :: mat3 where
  "identity3 = Matrix3 (Vector3 1 0 0) (Vector3 0 1 0) (Vector3 0 0 1)"

definition offsetRoot :: object3d where
  "offsetRoot = \<lparr>objId = 7, objPosition = Vector3 0 5 0, objRotation = identity3,
     objScale = Vector3 1 1 1, objPoints = [Vector3 0 0 0, Vector3 1 1 1], objResources = [1, 2]\<rparr>"

definition unitCube :: object3d where
  "unitCube = \<lparr>objId = 8, objPosition = Vector3 0 0 0, objRotation = identity3,
     objScale = Vector3 1 1 1, objPoints = [Vector3 0 0 0, Vector3 1 2 1], objResources = [3]\<rparr>"

definition noGeometry :: object3d where
  "noGeometry = \<lparr>objId = 9, objPosition = Vector3 0 0 0, objRotation = identity3,
     objScale = Vector3 1 1 1, objPoints = [], objResources = []\<rparr>"

text \<open>Uniform scaling by \<open>k\<close> followed by a translation by \<open>t\<close>.\<close>

definition moveScale :: "vec3 \<Rightarrow> real \<Rightarrow> vec3 \<Rightarrow> vec3" where
  "moveScale t k u = add t (multiplyScalar u k)"

subsection \<open>Model loading with request ids\<close>

text \<open>
  What a scene holds of interest here: a loaded model after normalisation, a loaded
  model whose normalisation produced non-finite numbers, or the placeholder mesh (whose
  own geometry and material are not tracked).
\<close>

datatype sceneItem = ModelObject object3d | NonFiniteObject object3d | PlaceholderMesh

fun itemId :: "sceneItem \<Rightarrow> nat option" where
  "itemId (ModelObject ob) = Some (objId ob)"
| "itemId (NonFiniteObject ob) = Some (objId ob)"
| "itemId PlaceholderMesh = None"

fun itemResources :: "sceneItem \<Rightarrow> nat list" where
  "itemResources (ModelObject ob) = objResources ob"
| "itemResources (NonFiniteObject ob) = objResources ob"
| "itemResources PlaceholderMesh = []"

text \<open>
  The viewer. \<^verbatim>\<open>modelUrl\<close> is represented by the format its extension selects
  (\<open>None\<close>: no URL). \<^verbatim>\<open>disposed\<close> collects the resources released by
  \<^verbatim>\<open>cleanupObject\<close>; \<^verbatim>\<open>callbacks\<close> records the calls of \<^verbatim>\<open>onModelLoaded\<close> and
  \<^verbatim>\<open>onModelLoadError\<close>. The effect starts a load and returns; the loader later
  calls \<^verbatim>\<open>onLoad\<close> or \<^verbatim>\<open>onError\<close> with the request id captured at the start.
  The capture of the neutral pose and the camera placement in \<^verbatim>\<open>onLoad\<close> do not
  touch the scene and are left out.
\<close>

datatype modelFormat = Fbx | Gltf | Glb | Obj | Unsupported

datatype viewerCallback = OnModelLoaded | OnModelLoadError

record viewer =
  viewerScene :: "sceneItem list option"
  meshRef :: "sceneItem option"
  loadRequestIdRef :: nat
  hasWebGL :: bool
  isRendererReady :: bool
  disposed :: "nat list"
  callbacks :: "viewerCallback list"

definition loadPlaceholder :: "viewer \<Rightarrow> viewer" where
  "loadPlaceholder st =
     (case viewerScene st of
        None \<Rightarrow> st
      | Some scene \<Rightarrow>
          st\<lparr>viewerScene := Some (scene @ [PlaceholderMesh]), meshRef := Some PlaceholderMesh\<rparr>)"

definition modelEffect :: "modelFormat option \<Rightarrow> viewer \<Rightarrow> viewer" where
  "modelEffect modelUrl st =
     (case viewerScene st of
        None \<Rightarrow> st
      | Some scene \<Rightarrow>
          if \<not> hasWebGL st \<or> \<not> isRendererReady st then st
          else
            let st1 = (case meshRef st of
                         None \<Rightarrow> st
                       | Some old \<Rightarrow>
                           st\<lparr>disposed := disposed st @ itemResources old,
                              viewerScene := Some (remove1 old scene),
                              meshRef := None\<rparr>);
                st2 = st1\<lparr>loadRequestIdRef := loadRequestIdRef st1 + 1\<rparr>
            in (case modelUrl of
                  None \<Rightarrow> loadPlaceholder st2
                | Some Unsupported \<Rightarrow> loadPlaceholder st2
                | Some _ \<Rightarrow> st2))"

definition onLoad :: "nat \<Rightarrow> object3d \<Rightarrow> viewer \<Rightarrow> viewer" where
  "onLoad requestId ob st =
     (if requestId \<noteq> loadRequestIdRef st then
        st\<lparr>disposed := disposed st @ objResources ob\<rparr>
      else
        (case viewerScene st of
           None \<Rightarrow> st
         | Some scene \<Rightarrow>
             let item = (case normalizeViewer ob of
                           Some ob' \<Rightarrow> ModelObject ob'
                         | None \<Rightarrow> NonFiniteObject ob)
             in st\<lparr>viewerScene := Some (scene @ [item]),
                    meshRef := Some item,
                    callbacks := callbacks st @ [OnModelLoaded]\<rparr>))"

definition onError :: "nat \<Rightarrow> viewer \<Rightarrow> viewer" where
  "onError requestId st =
     (if requestId \<noteq> loadRequestIdRef st then st
      else (loadPlaceholder st)\<lparr>callbacks := callbacks st @ [OnModelLoadError]\<rparr>)"

text \<open>
  The events of a session: the effect runs for a new URL, a load resolves with an
  object, a load fails. The last two carry the request id of the load they belong to.
\<close>

datatype loadEvent = Issue "modelFormat option" | Loaded nat object3d | LoadError nat

fun viewerStep :: "loadEvent \<Rightarrow> viewer \<Rightarrow> viewer" where
  "viewerStep (Issue modelUrl) st = modelEffect modelUrl st"
| "viewerStep (Loaded requestId ob) st = onLoad requestId ob st"
| "viewerStep (LoadError requestId) st = onError requestId st"

fun viewerRun :: "loadEvent list \<Rightarrow> viewer \<Rightarrow> viewer" where
  "viewerRun [] st = st"
| "viewerRun (e # es) st = viewerRun es (viewerStep e st)"

text \<open>\<open>inScene i\<close>: an object with identity \<open>i\<close> is in the scene. \<open>delivers i e\<close>: the
  request id under which event \<open>e\<close> delivers the object with identity \<open>i\<close>, if it does.\<close>

definition inScene :: "nat \<Rightarrow> sceneItem list option \<Rightarrow> bool" where
  "inScene i sc = (case sc of None \<Rightarrow> False | Some scene \<Rightarrow> Some i \<in> set (map itemId scene))"

fun delivers :: "nat \<Rightarrow> loadEvent \<Rightarrow> nat option" where
  "delivers i (Loaded requestId ob) = (if objId ob = i then Some requestId else None)"
| "delivers i e = None"

definition viewerReady :: "viewer \<Rightarrow> bool" where
  "viewerReady st = (viewerScene st \<noteq> None \<and> hasWebGL st \<and> isRendererReady st)"

text \<open>
  The skeleton-replacer modal: \<^verbatim>\<open>loadModel\<close> is an async function, suspended at the
  loader's \<^verbatim>\<open>loadAsync\<close>; \<^verbatim>\<open>loadModelResume\<close> is its continuation after a successful
  load (with the \<^verbatim>\<open>finally\<close> block), \<^verbatim>\<open>loadModelFailed\<close> the \<^verbatim>\<open>catch\<close> path. For an
  unsupported extension nothing is awaited and no object is loaded.
\<close>

datatype replacerToast = ModeloCargado | ErrorCargaModelo

record replacer =
  replacerScene :: "sceneItem list option"
  characterMeshRef :: "sceneItem option"
  replacerRequestIdRef :: nat
  isOpen :: bool
  replacerRendererReady :: bool
  cameraAndControls :: bool
  isLoading :: bool
  replacerDisposed :: "nat list"
  replacerToasts :: "replacerToast list"

definition centreReplacer :: "object3d \<Rightarrow> object3d option" where
  "centreReplacer ob =
     (case setFromObject ob of
        None \<Rightarrow> None
      | Some box \<Rightarrow>
          let center = getCenter box
          in Some (ob\<lparr>objPosition := Vector3 (vx (objPosition ob) - vx center)
                                          (- 2 - vy (boxMin box))
                                          (vz (objPosition ob) - vz center)\<rparr>))"

definition replacerEffect :: "modelFormat option \<Rightarrow> replacer \<Rightarrow> replacer" where
  "replacerEffect modelUrl st =
     (case modelUrl of
        None \<Rightarrow> st
      | Some fmt \<Rightarrow>
          if \<not> isOpen st \<or> replacerScene st = None \<or> \<not> replacerRendererReady st then st
          else
            let st1 = st\<lparr>replacerRequestIdRef := replacerRequestIdRef st + 1, isLoading := True\<rparr>
            in if fmt = Unsupported then st1\<lparr>isLoading := False\<rparr> else st1)"

definition loadModelResume :: "nat \<Rightarrow> object3d \<Rightarrow> replacer \<Rightarrow> replacer" where
  "loadModelResume requestId ob st =
     (if requestId \<noteq> replacerRequestIdRef st then
        st\<lparr>replacerDisposed := replacerDisposed st @ objResources ob\<rparr>
      else
        (case replacerScene st of
           None \<Rightarrow> st\<lparr>isLoading := False\<rparr>
         | Some scene \<Rightarrow>
             let item = (case centreReplacer ob of
                           Some ob' \<Rightarrow> ModelObject ob'
                         | None \<Rightarrow> NonFiniteObject ob);
                 scene1 = (case characterMeshRef st of
                             None \<Rightarrow> scene
                           | Some old \<Rightarrow> remove1 old scene)
             in if cameraAndControls st then
                  st\<lparr>replacerScene := Some (scene1 @ [item]),
                     characterMeshRef := Some item,
                     replacerToasts := replacerToasts st @ [ModeloCargado],
                     isLoading := False\<rparr>
                else st\<lparr>replacerScene := Some scene1, isLoading := False\<rparr>))"

definition loadModelFailed :: "nat \<Rightarrow> replacer \<Rightarrow> replacer" where
  "loadModelFailed requestId st =
     (if requestId \<noteq> replacerRequestIdRef st then st
      else if replacerScene st \<noteq> None
      then st\<lparr>replacerToasts := replacerToasts st @ [ErrorCargaModelo], isLoading := False\<rparr>
      else st\<lparr>isLoading := False\<rparr>)"

fun replacerStep :: "loadEvent \<Rightarrow> replacer \<Rightarrow> replacer" where
  "replacerStep (Issue modelUrl) st = replacerEffect modelUrl st"
| "replacerStep (Loaded requestId ob) st = loadModelResume requestId ob st"
| "replacerStep (LoadError requestId) st = loadModelFailed requestId st"

fun replacerRun :: "loadEvent list \<Rightarrow> replacer \<Rightarrow> replacer" where
  "replacerRun [] st = st"
| "replacerRun (e # es) st = replacerRun es (replacerStep e st)"

definition replacerReady :: "replacer \<Rightarrow> bool" where
  "replacerReady st = (isOpen st \<and> replacerScene st \<noteq> None \<and> replacerRendererReady st)"

definition viewer0 :: viewer where
  "viewer0 = \<lparr>viewerScene = Some [], meshRef = None, loadRequestIdRef = 0, hasWebGL = True,
     isRendererReady = True, disposed = [], callbacks = []\<rparr>"

definition replacer0 :: replacer where
  "replacer0 = \<lparr>replacerScene = Some [], characterMeshRef = None, replacerRequestIdRef = 0,
     isOpen = True, replacerRendererReady = True, cameraAndControls = True, isLoading = False,
     replacerDisposed = [], replacerToasts = []\<rparr>"

definition raceEvents :: "loadEvent list" where
  "raceEvents = [Loaded 1 offsetRoot, Loaded 2 unitCube]"

subsection \<open>Dragging a marker\<close>

text \<open>
  \<^verbatim>\<open>Plane.setFromNormalAndCoplanarPoint\<close>, \<^verbatim>\<open>Ray.distanceToPlane\<close>, \<^verbatim>\<open>Ray.at\<close> and
  \<^verbatim>\<open>Ray.intersectPlane\<close> of the library. \<^verbatim>\<open>intersectPlane\<close> returns null when the
  ray misses the plane and then leaves its target vector untouched; the model returns
  the pair of the returned value and the target.
\<close>

record ray =
  origin :: vec3
  direction :: vec3

record plane =
  normal :: vec3
  planeConstant :: real

definition setFromNormalAndCoplanarPoint :: "vec3 \<Rightarrow> vec3 \<Rightarrow> plane" where
  "setFromNormalAndCoplanarPoint n point = \<lparr>normal = n, planeConstant = - dot point n\<rparr>"

definition distanceToPoint :: "plane \<Rightarrow> vec3 \<Rightarrow> real" where
  "distanceToPoint pl point = dot (normal pl) point + planeConstant pl"

definition distanceToPlane :: "ray \<Rightarrow> plane \<Rightarrow> real option" where
  "distanceToPlane r pl =
     (let denominator = dot (normal pl) (direction r) in
      if denominator = 0 then
        (if distanceToPoint pl (origin r) = 0 then Some 0 else None)
      else
        let t = - (dot (origin r) (normal pl) + planeConstant pl) / denominator
        in if t \<ge> 0 then Some t else None)"

definition rayAt :: "ray \<Rightarrow> real \<Rightarrow> vec3" where
  "rayAt r t = add (origin r) (multiplyScalar (direction r) t)"

definition intersectPlane :: "ray \<Rightarrow> plane \<Rightarrow> vec3 \<Rightarrow> vec3 option \<times> vec3" where
  "intersectPlane r pl target =
     (case distanceToPlane r pl of
        None \<Rightarrow> (None, target)
      | Some t \<Rightarrow> (Some (rayAt r t), rayAt r t))"

text \<open>
  A pointer-move event, as the handler sees it after \<^verbatim>\<open>setFromCamera\<close>: the ray, the
  intersection points with the model (nearest first, as \<^verbatim>\<open>intersectObject\<close> sorts
  them), the markers hit, and the camera's world direction.
\<close>

record pointerMove =
  pointerRay :: ray
  modelIntersects :: "vec3 list"
  markerIntersects :: "string list"
  cameraDirection :: vec3

record dragState =
  dragMarkers :: "RigMarker list"
  draggedMarkerRef :: "string option"
  cameraReady :: bool
  characterMeshReady :: bool
  cursor :: string

definition setDraggedPosition :: "string \<Rightarrow> vec3 \<Rightarrow> dragState \<Rightarrow> dragState" where
  "setDraggedPosition d newPosition st =
     st\<lparr>dragMarkers :=
          map (\<lambda>m. if markerId m = d then m\<lparr>markerPosition := newPosition\<rparr> else m)
              (dragMarkers st),
        cursor := ''grabbing''\<rparr>"

text \<open>
  \<^verbatim>\<open>handleMouseMove\<close>. In the off-model branch the source tests
  \<^verbatim>\<open>if (intersection)\<close>, where \<^verbatim>\<open>intersection\<close> is the target vector created just
  before (initially (0, 0, 0)) and not the value returned by \<^verbatim>\<open>intersectPlane\<close>; an
  object is always truthy, so the \<^verbatim>\<open>else return\<close> is never taken and the marker is set
  to the target vector.
\<close>

definition handleMouseMove :: "pointerMove \<Rightarrow> dragState \<Rightarrow> dragState" where
  "handleMouseMove ev st =
     (if \<not> cameraReady st \<or> \<not> characterMeshReady st then st
      else
        (case draggedMarkerRef st of
           Some d \<Rightarrow>
             (case modelIntersects ev of
                point # _ \<Rightarrow> setDraggedPosition d point st
              | [] \<Rightarrow>
                  (case find (\<lambda>m. markerId m = d) (dragMarkers st) of
                     None \<Rightarrow> st
                   | Some currentMarker \<Rightarrow>
                       let pl = setFromNormalAndCoplanarPoint (cameraDirection ev)
                                  (markerPosition currentMarker);
                           (returned, intersection) =
                              intersectPlane (pointerRay ev) pl (Vector3 0 0 0)
                       in setDraggedPosition d intersection st))
         | None \<Rightarrow>
             (if markerIntersects ev \<noteq> [] then st\<lparr>cursor := ''grab''\<rparr>
              else if modelIntersects ev \<noteq> [] then st\<lparr>cursor := ''crosshair''\<rparr>
              else st\<lparr>cursor := ''default''\<rparr>)))"

definition markerBehindCamera :: dragState where
  "markerBehindCamera =
     \<lparr>dragMarkers = [\<lparr>markerId = ''chin'', markerLabel = ''Barbilla'',
                       markerPosition = Vector3 1 2 5, placed = True\<rparr>],
      draggedMarkerRef = Some ''chin'', cameraReady = True, characterMeshReady = True,
      cursor = ''grabbing''\<rparr>"

definition offModelMove :: pointerMove where
  "offModelMove =
     \<lparr>pointerRay = \<lparr>origin = Vector3 0 0 0, direction = Vector3 0 0 (- 1)\<rparr>,
      modelIntersects = [], markerIntersects = [],
      cameraDirection = Vector3 0 0 (- 1)\<rparr>"

section \<open>Verified properties\<close>

subsection \<open>C9: playback-rate mapping\<close>

text \<open>
  C9. With an action present, \<^verbatim>\<open>handleSpeedChange\<close> sets the action's time scale to
  exactly 0.1 at input 0, 1.0 at input 50 and 3.0 at input 100, and between the
  breakpoints to the linear interpolation of the two neighbouring breakpoint values:
  on [0, 50] between 0.1 and 1.0, on [50, 100] between 1.0 and 3.0.
\<close>

theorem C9_speed_mapping:
  "animationActionRef st = Some a \<longrightarrow>
     actionTimeScale (handleSpeedChange 0 st) = Some (1 / 10) \<and>
     actionTimeScale (handleSpeedChange 50 st) = Some 1 \<and>
     actionTimeScale (handleSpeedChange 100 st) = Some 3 \<and>
     (\<forall>s. 0 \<le> s \<and> s \<le> 50 \<longrightarrow>
        actionTimeScale (handleSpeedChange s st)
          = Some (((50 - s) * (1 / 10) + (s - 0) * 1) / (50 - 0))) \<and>
     (\<forall>s. 50 \<le> s \<and> s \<le> 100 \<longrightarrow>
        actionTimeScale (handleSpeedChange s st)
          = Some (((100 - s) * 1 + (s - 50) * 3) / (100 - 50)))"
  by (auto simp: handleSpeedChange_def actionTimeScale_def Let_def field_simps)

theorem C9_speed_mapping_witness:
  "actionTimeScale (handleSpeedChange 0 demoPlayback) = Some (1 / 10) \<and>
   actionTimeScale (handleSpeedChange 25 demoPlayback) = Some (11 / 20) \<and>
   actionTimeScale (handleSpeedChange 50 demoPlayback) = Some 1 \<and>
   actionTimeScale (handleSpeedChange 75 demoPlayback) = Some 2 \<and>
   actionTimeScale (handleSpeedChange 100 demoPlayback) = Some 3"
  using C9_speed_mapping [of demoPlayback demoAction]
  by (simp add: demoPlayback_def)

subsection \<open>C10: the extrapolation branch is total\<close>

lemma acosArgument_range: "- 1 \<le> acosArgument dq \<and> acosArgument dq \<le> 1"
  by (simp add: acosArgument_def)

lemma js_acos_acosArgument: "js_acos (acosArgument dq) = Some (arccos (acosArgument dq))"
  using acosArgument_range [of dq] by (simp add: js_acos_def)

lemma extrapolateRotation_small:
  "sinHalfAngleOf n c \<le> 0.0001 \<Longrightarrow> extrapolateRotation factor n c = Some n"
  by (simp add: extrapolateRotation_def sinHalfAngleOf_def js_acos_acosArgument Let_def)

lemma extrapolateRotation_large:
  "sinHalfAngleOf n c > 0.0001 \<Longrightarrow>
   extrapolateRotation factor n c =
     Some (multiply n
       (setFromAxisAngle
          (Vector3 (qx (deltaQ n c) / sinHalfAngleOf n c)
                   (qy (deltaQ n c) / sinHalfAngleOf n c)
                   (qz (deltaQ n c) / sinHalfAngleOf n c))
          (2 * arccos (acosArgument (deltaQ n c)) * factor)))"
  by (simp add: extrapolateRotation_def sinHalfAngleOf_def js_acos_acosArgument Let_def
      js_div_def)

text \<open>
  C10. In the extrapolation branch the argument of \<^verbatim>\<open>Math.acos\<close> lies in [-1, 1];
  the function always returns a rotation (no undefined \<^verbatim>\<open>acos\<close>, no division by
  zero); when the sine of the half angle is at most 0.0001 no division takes place and
  the result is the captured neutral rotation; otherwise the divisor is greater than
  0.0001. Hence the whole blend of a bone is defined for every factor.
\<close>

theorem C10_extrapolation_total:
  "(- 1 \<le> acosArgument (deltaQ n c) \<and> acosArgument (deltaQ n c) \<le> 1) \<and>
   (\<exists>q. extrapolateRotation factor n c = Some q) \<and>
   (sinHalfAngleOf n c \<le> 0.0001 \<longrightarrow> extrapolateRotation factor n c = Some n) \<and>
   (extrapolateRotation factor n c \<noteq> Some n \<longrightarrow> sinHalfAngleOf n c > 0.0001) \<and>
   (\<exists>p. applyEnthusiasm factor \<lparr>position = np, rotation = n\<rparr>
           \<lparr>position = cp, rotation = c\<rparr> = Some p)"
proof -
  have tot: "\<exists>q. extrapolateRotation factor n c = Some q"
  proof (cases "sinHalfAngleOf n c \<le> 0.0001")
    case True
    then show ?thesis by (simp add: extrapolateRotation_small)
  next
    case False
    then have "sinHalfAngleOf n c > 0.0001" by simp
    then show ?thesis by (simp add: extrapolateRotation_large)
  qed
  have small: "sinHalfAngleOf n c \<le> 0.0001 \<longrightarrow> extrapolateRotation factor n c = Some n"
    by (simp add: extrapolateRotation_small)
  have contra: "extrapolateRotation factor n c \<noteq> Some n \<longrightarrow> sinHalfAngleOf n c > 0.0001"
    using small by force
  from tot obtain q where q: "extrapolateRotation factor n c = Some q" by blast
  have blend: "\<exists>p. applyEnthusiasm factor \<lparr>position = np, rotation = n\<rparr>
           \<lparr>position = cp, rotation = c\<rparr> = Some p"
    by (simp add: applyEnthusiasm_def q)
  from acosArgument_range [of "deltaQ n c"] tot small contra blend show ?thesis by blast
qed

lemma sinHalfAngleOf_identity: "sinHalfAngleOf identityRotation identityRotation = 0"
  by (simp add: sinHalfAngleOf_def acosArgument_def deltaQ_def normalize_def lengthQ_def
      multiply_def invert_def identityRotation_def)

theorem C10_extrapolation_total_witness:
  "sinHalfAngleOf identityRotation identityRotation \<le> 0.0001 \<and>
   extrapolateRotation 2 identityRotation identityRotation = Some identityRotation"
  using C10_extrapolation_total [of identityRotation identityRotation 2]
  by (simp add: sinHalfAngleOf_identity)

subsection \<open>C5: the enthusiasm control and the frame loop\<close>

text \<open>
  \<^verbatim>\<open>handleEnthusiasmChange\<close> writes the state variable only; the frame loop keeps the
  value it was created with, also when the effect that calls \<^verbatim>\<open>initViewer\<close> runs again.
\<close>

lemma animate_handleEnthusiasmChange:
  "animate (handleEnthusiasmChange e st) = animate st"
  by (rule ext)+ (simp add: animate_def handleEnthusiasmChange_def)

lemma animateClosure_handleEnthusiasmChanges:
  "animateClosure (handleEnthusiasmChanges es st) = animateClosure st"
  by (induction es arbitrary: st) (simp_all add: handleEnthusiasmChange_def)

lemma handleEnthusiasmChanges_append:
  "handleEnthusiasmChanges (es @ [e]) st = handleEnthusiasmChange e (handleEnthusiasmChanges es st)"
  by (induction es arbitrary: st) simp_all

lemma initViewer_once:
  "animateClosure st = Some captured \<Longrightarrow> initViewer (handleEnthusiasmChange e st) = handleEnthusiasmChange e st"
  by (simp add: initViewer_def handleEnthusiasmChange_def)

text \<open>
  The block run with the value 100 on the example: the non-root bone has the neutral
  pose (0, 1, 0), (0, 0, 0, 1) and the animated pose (1, 3, 0), (1, 0, 0, 0); at factor
  2.0 the position is extrapolated to (2, 5, 0) and the half turn about the x axis is
  doubled to a full turn, (0, 0, 0, -1).
\<close>

lemma demo_100:
  "animateEnthusiasm 100 demoNeutral demoBones =
     Some [\<lparr>boneId = 0, parentIsBone = False, bonePose = animatedArm\<rparr>,
           \<lparr>boneId = 1, parentIsBone = True, bonePose = extrapolatedArm\<rparr>]"
  by (simp add: animateEnthusiasm_def demoNeutral_def demoBones_def enthusiasmBone_def
      enthusiasmFactor_def applyEnthusiasm_def extrapolateRotation_def Let_def
      deltaQ_def acosArgument_def js_acos_def js_div_def normalize_def lengthQ_def multiply_def
      invert_def setFromAxisAngle_def neutralArm_def animatedArm_def extrapolatedArm_def
      add_def sub_def multiplyScalar_def)

text \<open>
  C5. The enthusiasm control does not reach the block that maps it to a blend factor.
  The viewer is mounted, with the control at its initial value 50, and initialised;
  afterwards the control is changed any number of times, the last time to \<open>e\<close>. Then
  the state variable holds \<open>e\<close>, the frame loop still holds the 50 it was created with,
  and a frame leaves every bone exactly as the mixer posed it, for every \<open>e\<close>, every
  neutral pose and every skeleton. At input 100 the mapping gives the factor 2.0, and
  the block run with the value 100 renders the non-root bone of the example at position
  (2, 5, 0) and rotation (0, 0, 0, -1), which is not the animated pose that the frame
  loop renders.
\<close>

theorem C5_control_not_applied:
  "animationEnthusiasm (handleEnthusiasmChanges (es @ [e]) (initViewer mountedViewer)) = e \<and>
   animateClosure (handleEnthusiasmChanges (es @ [e]) (initViewer mountedViewer)) = Some 50 \<and>
   animate (handleEnthusiasmChanges (es @ [e]) (initViewer mountedViewer)) neutralPoseRef meshBones
     = Some meshBones \<and>
   enthusiasmFactor 100 = 2 \<and>
   animateEnthusiasm 100 demoNeutral demoBones =
     Some [\<lparr>boneId = 0, parentIsBone = False, bonePose = animatedArm\<rparr>,
           \<lparr>boneId = 1, parentIsBone = True, bonePose = extrapolatedArm\<rparr>] \<and>
   animateEnthusiasm 100 demoNeutral demoBones \<noteq> Some demoBones"
proof -
  let ?st = "handleEnthusiasmChanges (es @ [e]) (initViewer mountedViewer)"
  have state: "animationEnthusiasm ?st = e"
    by (simp add: handleEnthusiasmChanges_append handleEnthusiasmChange_def)
  have closure: "animateClosure ?st = Some 50"
    by (simp add: animateClosure_handleEnthusiasmChanges initViewer_def mountedViewer_def)
  have frame: "animate ?st neutralPoseRef meshBones = Some meshBones"
    by (simp add: animate_def closure animateEnthusiasm_def)
  have factor: "enthusiasmFactor 100 = 2"
    by (simp add: enthusiasmFactor_def)
  have differs: "animateEnthusiasm 100 demoNeutral demoBones \<noteq> Some demoBones"
    unfolding demo_100 by (simp add: demoBones_def animatedArm_def extrapolatedArm_def)
  from state closure frame factor demo_100 differs show ?thesis by blast
qed

theorem C5_control_not_applied_witness:
  "animationEnthusiasm (handleEnthusiasmChanges [0, 100] (initViewer mountedViewer)) = 100 \<and>
   animate (handleEnthusiasmChanges [0, 100] (initViewer mountedViewer)) demoNeutral demoBones
     = Some demoBones \<and>
   animate (handleEnthusiasmChanges [0, 100] (initViewer mountedViewer)) demoNeutral demoBones
     \<noteq> animateEnthusiasm 100 demoNeutral demoBones"
  using C5_control_not_applied [of "[0]" 100 demoNeutral demoBones]
  by (simp add: demoBones_def animatedArm_def extrapolatedArm_def)

text \<open>
  When the control was changed before the viewer was initialised (the handlers are
  exposed while no character is selected), the frame loop holds that value instead:
  setting the control back to 50 then does not restore the animated pose.
\<close>

lemma control_at_50_after_early_change:
  "animationEnthusiasm (handleEnthusiasmChange 50 (initViewer (handleEnthusiasmChange 100 mountedViewer)))
     = 50 \<and>
   animate (handleEnthusiasmChange 50 (initViewer (handleEnthusiasmChange 100 mountedViewer)))
       demoNeutral demoBones
     = animateEnthusiasm 100 demoNeutral demoBones"
  by (simp add: animate_def handleEnthusiasmChange_def initViewer_def mountedViewer_def)

subsection \<open>The enthusiasm block on the value the frame loop holds\<close>

lemma slerpQuaternions_0: "slerpQuaternions qa qb 0 = qa"
  by (simp add: slerpQuaternions_def)

lemma slerpQuaternions_1: "slerpQuaternions qa qb 1 = qb"
  by (simp add: slerpQuaternions_def)

lemma lerpVectors_0: "lerpVectors v1 v2 0 = v1"
  by (simp add: lerpVectors_def)

lemma lerpVectors_1: "lerpVectors v1 v2 1 = v2"
  by (simp add: lerpVectors_def)

lemma enthusiasmFactor_range:
  "0 \<le> e \<Longrightarrow> e \<le> 100 \<Longrightarrow> 2 / 10 \<le> enthusiasmFactor e \<and> enthusiasmFactor e \<le> 2"
  by (simp add: enthusiasmFactor_def)

lemma enthusiasmFactor_zero_iff: "enthusiasmFactor e = 0 \<longleftrightarrow> e = - 25 / 2"
  by (auto simp: enthusiasmFactor_def field_simps)

lemma extrapolateRotation_defined: "\<exists>q. extrapolateRotation factor n c = Some q"
proof (cases "sinHalfAngleOf n c \<le> 0.0001")
  case True
  then show ?thesis by (simp add: extrapolateRotation_small)
next
  case False
  then have "sinHalfAngleOf n c > 0.0001" by simp
  then show ?thesis by (simp add: extrapolateRotation_large)
qed

lemma applyEnthusiasm_defined: "\<exists>p. applyEnthusiasm factor neutralData current = Some p"
proof -
  obtain q where "extrapolateRotation factor (rotation neutralData) (rotation current) = Some q"
    using extrapolateRotation_defined by blast
  then show ?thesis by (simp add: applyEnthusiasm_def)
qed

lemma applyEnthusiasm_0: "applyEnthusiasm 0 neutralData current = Some neutralData"
  by (simp add: applyEnthusiasm_def slerpQuaternions_0 lerpVectors_0)

lemma applyEnthusiasm_1: "applyEnthusiasm 1 neutralData current = Some current"
  by (simp add: applyEnthusiasm_def slerpQuaternions_1 lerpVectors_1)

lemma enthusiasmBone_defined: "\<exists>b'. enthusiasmBone factor nref b = Some b'"
proof -
  obtain p where "applyEnthusiasm factor (the (map_of nref (boneId b))) (bonePose b) = Some p"
    using applyEnthusiasm_defined by blast
  then show ?thesis by (auto simp: enthusiasmBone_def split: option.splits)
qed

lemma enthusiasmBone_frame:
  "enthusiasmBone factor nref b = Some b' \<Longrightarrow>
   boneId b' = boneId b \<and> parentIsBone b' = parentIsBone b"
  by (auto simp: enthusiasmBone_def split: option.splits if_splits)

lemma enthusiasmBone_pose:
  "enthusiasmBone factor nref b = Some b' \<Longrightarrow>
   (case map_of nref (boneId b) of
      None \<Rightarrow> b' = b
    | Some neutralData \<Rightarrow>
        if parentIsBone b then Some (bonePose b') = applyEnthusiasm factor neutralData (bonePose b)
        else b' = b)"
  by (auto simp: enthusiasmBone_def split: option.splits if_splits)

lemma traverseBones_defined:
  "(\<And>b. \<exists>b'. f b = Some b') \<Longrightarrow> \<exists>bs. traverseBones f bones = Some bs"
proof (induction bones)
  case Nil
  then show ?case by simp
next
  case (Cons b bones)
  obtain b' where "f b = Some b'" using Cons.prems by blast
  moreover obtain bs where "traverseBones f bones = Some bs" using Cons by blast
  ultimately show ?case by simp
qed

lemma traverseBones_nth:
  "traverseBones f bones = Some bs \<Longrightarrow>
   length bs = length bones \<and> (\<forall>i<length bones. f (bones ! i) = Some (bs ! i))"
proof (induction bones arbitrary: bs)
  case Nil
  then show ?case by simp
next
  case (Cons b bones)
  then obtain b' bs' where s: "f b = Some b'" "traverseBones f bones = Some bs'" "bs = b' # bs'"
    by (auto split: option.splits)
  from Cons.IH [OF s(2)] s(1) s(3) show ?case
    by (auto simp: nth_Cons split: nat.splits)
qed

lemma animateEnthusiasm_render:
  "\<exists>bs. animateEnthusiasm v nref bones = Some bs \<and> length bs = length bones \<and>
     (\<forall>i<length bones.
        boneId (bs ! i) = boneId (bones ! i) \<and>
        parentIsBone (bs ! i) = parentIsBone (bones ! i) \<and>
        (case map_of nref (boneId (bones ! i)) of
           None \<Rightarrow> bs ! i = bones ! i
         | Some neutralData \<Rightarrow>
             if parentIsBone (bones ! i) \<and> v \<noteq> 50
             then Some (bonePose (bs ! i)) =
                    applyEnthusiasm (enthusiasmFactor v) neutralData (bonePose (bones ! i))
             else bs ! i = bones ! i))"
proof (cases "v \<noteq> 50 \<and> nref \<noteq> []")
  case True
  let ?f = "enthusiasmBone (enthusiasmFactor v) nref"
  have run: "animateEnthusiasm v nref bones = traverseBones ?f bones"
    using True by (simp add: animateEnthusiasm_def)
  obtain bs where bs: "traverseBones ?f bones = Some bs"
    using traverseBones_defined [of ?f bones] enthusiasmBone_defined by blast
  from traverseBones_nth [OF bs]
  have len: "length bs = length bones"
    and nth: "\<And>i. i < length bones \<Longrightarrow> ?f (bones ! i) = Some (bs ! i)"
    by simp_all
  have "boneId (bs ! i) = boneId (bones ! i) \<and>
        parentIsBone (bs ! i) = parentIsBone (bones ! i) \<and>
        (case map_of nref (boneId (bones ! i)) of
           None \<Rightarrow> bs ! i = bones ! i
         | Some neutralData \<Rightarrow>
             if parentIsBone (bones ! i) \<and> v \<noteq> 50
             then Some (bonePose (bs ! i)) =
                    applyEnthusiasm (enthusiasmFactor v) neutralData (bonePose (bones ! i))
             else bs ! i = bones ! i)" if "i < length bones" for i
    using enthusiasmBone_frame [OF nth [OF that]] enthusiasmBone_pose [OF nth [OF that]] True
    by (simp split: option.splits if_splits)
  with run bs len show ?thesis by simp
next
  case False
  then have run: "animateEnthusiasm v nref bones = Some bones"
    by (auto simp: animateEnthusiasm_def)
  have "case map_of nref (boneId (bones ! i)) of
           None \<Rightarrow> bones ! i = bones ! i
         | Some neutralData \<Rightarrow>
             if parentIsBone (bones ! i) \<and> v \<noteq> 50
             then Some (bonePose (bones ! i)) =
                    applyEnthusiasm (enthusiasmFactor v) neutralData (bonePose (bones ! i))
             else bones ! i = bones ! i" for i
    using False by (auto split: option.splits)
  with run show ?thesis by simp
qed

text \<open>
  The block maps the value it reads to the blend factor with 0 to 0.2, 50 to 1.0 and
  100 to 2.0, linearly between neighbouring breakpoints. For a frame loop that holds the
  value \<open>v\<close>, a frame always returns bones, as many as the mixer posed and with the
  same identities and parents; at \<open>v = 50\<close> they are the bones as the mixer posed them;
  otherwise every bone with a captured neutral pose and a bone as parent is rendered at
  the blend of its neutral and its animated pose with the factor of \<open>v\<close>, and every
  other bone is unchanged. When the factor of \<open>v\<close> is 0, every such non-root bone is
  rendered at exactly its captured neutral pose, position and rotation.
\<close>

theorem enthusiasm_block:
  "(enthusiasmFactor 0 = 2 / 10 \<and> enthusiasmFactor 50 = 1 \<and> enthusiasmFactor 100 = 2) \<and>
   (\<forall>e. 0 \<le> e \<and> e \<le> 50 \<longrightarrow>
      enthusiasmFactor e = ((50 - e) * (2 / 10) + (e - 0) * 1) / (50 - 0)) \<and>
   (\<forall>e. 50 \<le> e \<and> e \<le> 100 \<longrightarrow>
      enthusiasmFactor e = ((100 - e) * 1 + (e - 50) * 2) / (100 - 50)) \<and>
   (animateClosure st = Some v \<longrightarrow>
      (\<exists>bs. animate st nref bones = Some bs \<and> length bs = length bones \<and>
         (v = 50 \<longrightarrow> bs = bones) \<and>
         (\<forall>i<length bones.
            boneId (bs ! i) = boneId (bones ! i) \<and>
            parentIsBone (bs ! i) = parentIsBone (bones ! i) \<and>
            (case map_of nref (boneId (bones ! i)) of
               None \<Rightarrow> bs ! i = bones ! i
             | Some neutralData \<Rightarrow>
                 if parentIsBone (bones ! i) \<and> v \<noteq> 50
                 then Some (bonePose (bs ! i)) =
                        applyEnthusiasm (enthusiasmFactor v) neutralData (bonePose (bones ! i))
                 else bs ! i = bones ! i)) \<and>
         (enthusiasmFactor v = 0 \<longrightarrow>
            (\<forall>i<length bones. \<forall>neutralData.
               map_of nref (boneId (bones ! i)) = Some neutralData \<and> parentIsBone (bones ! i)
               \<longrightarrow> bonePose (bs ! i) = neutralData))))"
proof -
  have f: "enthusiasmFactor 0 = 2 / 10 \<and> enthusiasmFactor 50 = 1 \<and> enthusiasmFactor 100 = 2"
    by (simp add: enthusiasmFactor_def)
  have lo: "\<forall>e. 0 \<le> e \<and> e \<le> 50 \<longrightarrow>
      enthusiasmFactor e = ((50 - e) * (2 / 10) + (e - 0) * 1) / (50 - 0)"
    by (auto simp: enthusiasmFactor_def field_simps)
  have hi: "\<forall>e. 50 \<le> e \<and> e \<le> 100 \<longrightarrow>
      enthusiasmFactor e = ((100 - e) * 1 + (e - 50) * 2) / (100 - 50)"
    by (auto simp: enthusiasmFactor_def field_simps)
  have block: "\<exists>bs. animate st nref bones = Some bs \<and> length bs = length bones \<and>
         (v = 50 \<longrightarrow> bs = bones) \<and>
         (\<forall>i<length bones.
            boneId (bs ! i) = boneId (bones ! i) \<and>
            parentIsBone (bs ! i) = parentIsBone (bones ! i) \<and>
            (case map_of nref (boneId (bones ! i)) of
               None \<Rightarrow> bs ! i = bones ! i
             | Some neutralData \<Rightarrow>
                 if parentIsBone (bones ! i) \<and> v \<noteq> 50
                 then Some (bonePose (bs ! i)) =
                        applyEnthusiasm (enthusiasmFactor v) neutralData (bonePose (bones ! i))
                 else bs ! i = bones ! i)) \<and>
         (enthusiasmFactor v = 0 \<longrightarrow>
            (\<forall>i<length bones. \<forall>neutralData.
               map_of nref (boneId (bones ! i)) = Some neutralData \<and> parentIsBone (bones ! i)
               \<longrightarrow> bonePose (bs ! i) = neutralData))"
    if cl: "animateClosure st = Some v"
  proof -
    have run: "animate st nref bones = animateEnthusiasm v nref bones"
      by (simp add: animate_def cl)
    obtain bs where bs: "animateEnthusiasm v nref bones = Some bs"
      and len: "length bs = length bones"
      and nth: "\<forall>i<length bones.
        boneId (bs ! i) = boneId (bones ! i) \<and>
        parentIsBone (bs ! i) = parentIsBone (bones ! i) \<and>
        (case map_of nref (boneId (bones ! i)) of
           None \<Rightarrow> bs ! i = bones ! i
         | Some neutralData \<Rightarrow>
             if parentIsBone (bones ! i) \<and> v \<noteq> 50
             then Some (bonePose (bs ! i)) =
                    applyEnthusiasm (enthusiasmFactor v) neutralData (bonePose (bones ! i))
             else bs ! i = bones ! i)"
      using animateEnthusiasm_render [of v nref bones] by blast
    have skip: "v = 50 \<longrightarrow> bs = bones"
      using bs by (auto simp: animateEnthusiasm_def)
    have zero: "bonePose (bs ! i) = neutralData"
      if z: "enthusiasmFactor v = 0" and i: "i < length bones"
        and nd: "map_of nref (boneId (bones ! i)) = Some neutralData"
        and par: "parentIsBone (bones ! i)" for i neutralData
    proof -
      from z have "v \<noteq> 50" by (auto simp: enthusiasmFactor_def)
      with nth i nd par z
      have "Some (bonePose (bs ! i)) = applyEnthusiasm 0 neutralData (bonePose (bones ! i))"
        by auto
      then show ?thesis by (simp add: applyEnthusiasm_0)
    qed
    from run bs len skip nth zero show ?thesis by auto
  qed
  from f lo hi block show ?thesis by blast
qed

theorem enthusiasm_block_witness:
  "animateClosure (initViewer (handleEnthusiasmChange (- 25 / 2) mountedViewer)) = Some (- 25 / 2) \<and>
   enthusiasmFactor (- 25 / 2) = 0 \<and>
   animate (initViewer (handleEnthusiasmChange (- 25 / 2) mountedViewer)) demoNeutral demoBones =
     Some [\<lparr>boneId = 0, parentIsBone = False, bonePose = animatedArm\<rparr>,
           \<lparr>boneId = 1, parentIsBone = True, bonePose = neutralArm\<rparr>] \<and>
   enthusiasmFactor 25 = 6 / 10 \<and> enthusiasmFactor 75 = 3 / 2"
  using enthusiasm_block [of "initViewer (handleEnthusiasmChange (- 25 / 2) mountedViewer)"
      "- 25 / 2" demoNeutral demoBones]
  by (simp add: initViewer_def handleEnthusiasmChange_def mountedViewer_def animate_def
      animateEnthusiasm_def enthusiasmFactor_def enthusiasmBone_def applyEnthusiasm_def
      demoNeutral_def demoBones_def slerpQuaternions_0 lerpVectors_0 neutralArm_def animatedArm_def)

text \<open>
  The factor 0 belongs to the value -12.5 only; on the range 0 to 100 of the control the
  factor stays between 0.2 and 2.0 (lemmas \<open>enthusiasmFactor_zero_iff\<close> and
  \<open>enthusiasmFactor_range\<close>). At the value 0 the factor is 0.2 and the non-root bone of
  the example is rendered at the position (0.2, 1.4, 0), a fifth of the way from its
  neutral to its animated position.
\<close>

lemma input_0_blend:
  "map_option (map (position \<circ> bonePose)) (animateEnthusiasm 0 demoNeutral demoBones) =
     Some [Vector3 1 3 0, Vector3 (1 / 5) (7 / 5) 0]"
  by (simp add: animateEnthusiasm_def demoNeutral_def demoBones_def enthusiasmBone_def
      enthusiasmFactor_def applyEnthusiasm_def lerpVectors_def neutralArm_def animatedArm_def)

subsection \<open>C3: in-place toggling\<close>

lemma inPlaceEffect_frame:
  "(\<exists>ext. clips (inPlaceEffect st) = clips st @ ext) \<and>
   originalAnimationClipRef (inPlaceEffect st) = originalAnimationClipRef st \<and>
   isAnimationPlaying (inPlaceEffect st) = isAnimationPlaying st \<and>
   inPlace (inPlaceEffect st) = inPlace st \<and>
   rootBoneRef (inPlaceEffect st) = rootBoneRef st \<and>
   map_option time (animationActionRef (inPlaceEffect st)) = map_option time (animationActionRef st) \<and>
   (animationMixerRef (inPlaceEffect st) = None) = (animationMixerRef st = None) \<and>
   (animationActionRef (inPlaceEffect st) = None) = (animationActionRef st = None)"
  by (auto simp: inPlaceEffect_def Let_def createInPlaceClip_def clipAction_def play_def reset_def
      split: option.splits prod.splits if_splits)

lemma handleInPlaceChange_frame:
  "(\<exists>ext. clips (handleInPlaceChange e st) = clips st @ ext) \<and>
   originalAnimationClipRef (handleInPlaceChange e st) = originalAnimationClipRef st \<and>
   isAnimationPlaying (handleInPlaceChange e st) = isAnimationPlaying st \<and>
   inPlace (handleInPlaceChange e st) = e \<and>
   rootBoneRef (handleInPlaceChange e st) = rootBoneRef st \<and>
   map_option time (animationActionRef (handleInPlaceChange e st))
     = map_option time (animationActionRef st) \<and>
   (animationMixerRef (handleInPlaceChange e st) = None) = (animationMixerRef st = None) \<and>
   (animationActionRef (handleInPlaceChange e st) = None) = (animationActionRef st = None)"
proof (cases "inPlace st = e")
  case True
  then show ?thesis by (simp add: handleInPlaceChange_def)
next
  case False
  then show ?thesis
    using inPlaceEffect_frame [of "st\<lparr>inPlace := e\<rparr>"]
    by (simp add: handleInPlaceChange_def)
qed

lemma toggles_frame:
  "(\<exists>ext. clips (toggles ts st) = clips st @ ext) \<and>
   originalAnimationClipRef (toggles ts st) = originalAnimationClipRef st \<and>
   isAnimationPlaying (toggles ts st) = isAnimationPlaying st \<and>
   map_option time (animationActionRef (toggles ts st))
     = map_option time (animationActionRef st)"
proof (induction ts arbitrary: st)
  case Nil
  then show ?case by simp
next
  case (Cons e ts)
  from handleInPlaceChange_frame [of e st] obtain ext1 where
    e1: "clips (handleInPlaceChange e st) = clips st @ ext1" by blast
  from Cons.IH [of "handleInPlaceChange e st"] obtain ext2 where
    e2: "clips (toggles ts (handleInPlaceChange e st)) = clips (handleInPlaceChange e st) @ ext2"
    by blast
  have "clips (toggles (e # ts) st) = clips st @ (ext1 @ ext2)"
    using e1 e2 by simp
  then show ?case
    using Cons.IH [of "handleInPlaceChange e st"] handleInPlaceChange_frame [of e st]
    by (metis toggles.simps(2))
qed

lemma onAnimationLoad_offPlaysOriginal:
  "offPlaysOriginal (onAnimationLoad (inPlace st) (Some (c # cs)) (st\<lparr>animationActionRef := None\<rparr>))"
  by (auto simp: offPlaysOriginal_def onAnimationLoad_def Let_def createInPlaceClip_def
      clipAction_def play_def reset_def split: option.splits prod.splits)

lemma handleInPlaceChange_off:
  "animationMixerRef st \<noteq> None \<Longrightarrow> originalAnimationClipRef st \<noteq> None \<Longrightarrow>
   offPlaysOriginal st \<Longrightarrow> offPlaysOriginal (handleInPlaceChange e st)"
  by (auto simp: offPlaysOriginal_def handleInPlaceChange_def inPlaceEffect_def Let_def
      createInPlaceClip_def clipAction_def play_def reset_def
      split: option.splits prod.splits if_splits)

lemma toggles_off:
  "animationMixerRef st \<noteq> None \<Longrightarrow> originalAnimationClipRef st \<noteq> None \<Longrightarrow>
   offPlaysOriginal st \<Longrightarrow> offPlaysOriginal (toggles ts st)"
proof (induction ts arbitrary: st)
  case Nil
  then show ?case by simp
next
  case (Cons e ts)
  have "animationMixerRef (handleInPlaceChange e st) \<noteq> None"
    using Cons.prems handleInPlaceChange_frame [of e st] by simp
  moreover have "originalAnimationClipRef (handleInPlaceChange e st) \<noteq> None"
    using Cons.prems handleInPlaceChange_frame [of e st] by simp
  moreover have "offPlaysOriginal (handleInPlaceChange e st)"
    using Cons.prems by (simp add: handleInPlaceChange_off)
  ultimately show ?case using Cons.IH by simp
qed

lemma toggles_inPlace:
  "inPlace (toggles ts st) = (if ts = [] then inPlace st else last ts)"
proof (induction ts arbitrary: st)
  case Nil
  then show ?case by simp
next
  case (Cons e ts)
  then show ?case using handleInPlaceChange_frame [of e st] by simp
qed

lemma handleInPlaceChange_paused:
  "animationMixerRef st \<noteq> None \<Longrightarrow> originalAnimationClipRef st \<noteq> None \<Longrightarrow>
   animationActionRef st \<noteq> None \<Longrightarrow> inPlace st \<noteq> e \<Longrightarrow>
   map_option paused (animationActionRef (handleInPlaceChange e st))
     = Some (\<not> isAnimationPlaying st)"
  by (auto simp: handleInPlaceChange_def inPlaceEffect_def Let_def
      createInPlaceClip_def clipAction_def play_def reset_def
      split: option.splits prod.splits if_splits)

text \<open>
  C3. For a loaded clip (the original clip reference \<open>r\<close>, a valid address) and every
  sequence \<open>ts\<close> of in-place settings: the reference and the content of the original
  clip (its track list, hence track names and count) are the same after the sequence as
  before; whenever in-place is off after the sequence, the action plays the original
  clip object itself, so its tracks are exactly the original ones; the playback time
  and the play/pause state variable are unchanged by any sequence; and a single toggle
  that changes the setting yields an action at the previous time whose \<^verbatim>\<open>paused\<close>
  flag is the negation of \<^verbatim>\<open>isAnimationPlaying\<close>.
\<close>

theorem C3_in_place_toggling:
  "originalAnimationClipRef st = Some r \<and> r < length (clips st) \<longrightarrow>
     (originalAnimationClipRef (toggles ts st) = Some r \<and>
      clips (toggles ts st) ! r = clips st ! r) \<and>
     (animationMixerRef st \<noteq> None \<and> animationActionRef st \<noteq> None \<and> offPlaysOriginal st \<and>
      \<not> inPlace (toggles ts st) \<longrightarrow>
        map_option clipRef (animationActionRef (toggles ts st)) = Some r \<and>
        actionTracks (toggles ts st) = Some (tracks (clips st ! r))) \<and>
     map_option time (animationActionRef (toggles ts st))
       = map_option time (animationActionRef st) \<and>
     isAnimationPlaying (toggles ts st) = isAnimationPlaying st \<and>
     (animationMixerRef st \<noteq> None \<and> animationActionRef st \<noteq> None \<and> inPlace st \<noteq> e \<longrightarrow>
        map_option time (animationActionRef (handleInPlaceChange e st))
          = map_option time (animationActionRef st) \<and>
        map_option paused (animationActionRef (handleInPlaceChange e st))
          = Some (\<not> isAnimationPlaying st) \<and>
        isAnimationPlaying (handleInPlaceChange e st) = isAnimationPlaying st)"
proof (intro impI, elim conjE)
  assume orig: "originalAnimationClipRef st = Some r" and r: "r < length (clips st)"
  from toggles_frame [of ts st] obtain ext where
    ext: "clips (toggles ts st) = clips st @ ext" by blast
  have same: "clips (toggles ts st) ! r = clips st ! r"
    using ext r by (simp add: nth_append)
  have ref: "originalAnimationClipRef (toggles ts st) = Some r"
    using toggles_frame [of ts st] orig by simp
  have off: "animationMixerRef st \<noteq> None \<and> animationActionRef st \<noteq> None \<and> offPlaysOriginal st \<and>
      \<not> inPlace (toggles ts st) \<longrightarrow>
        map_option clipRef (animationActionRef (toggles ts st)) = Some r \<and>
        actionTracks (toggles ts st) = Some (tracks (clips st ! r))"
  proof (intro impI, elim conjE)
    assume m: "animationMixerRef st \<noteq> None" and a: "animationActionRef st \<noteq> None"
      and o: "offPlaysOriginal st" and n: "\<not> inPlace (toggles ts st)"
    have "offPlaysOriginal (toggles ts st)"
      using m o orig by (simp add: toggles_off)
    moreover have "animationActionRef (toggles ts st) \<noteq> None"
      using a toggles_frame [of ts st] by (metis option.map_disc_iff)
    ultimately have c: "map_option clipRef (animationActionRef (toggles ts st)) = Some r"
      using n ref by (auto simp: offPlaysOriginal_def split: option.splits)
    then show "map_option clipRef (animationActionRef (toggles ts st)) = Some r \<and>
        actionTracks (toggles ts st) = Some (tracks (clips st ! r))"
      using same by (auto simp: actionTracks_def)
  qed
  have step: "animationMixerRef st \<noteq> None \<and> animationActionRef st \<noteq> None \<and> inPlace st \<noteq> e \<longrightarrow>
        map_option time (animationActionRef (handleInPlaceChange e st))
          = map_option time (animationActionRef st) \<and>
        map_option paused (animationActionRef (handleInPlaceChange e st))
          = Some (\<not> isAnimationPlaying st) \<and>
        isAnimationPlaying (handleInPlaceChange e st) = isAnimationPlaying st"
    using handleInPlaceChange_frame [of e st] orig
    by (simp add: handleInPlaceChange_paused)
  from same ref off step toggles_frame [of ts st]
  show "(originalAnimationClipRef (toggles ts st) = Some r \<and>
      clips (toggles ts st) ! r = clips st ! r) \<and>
     (animationMixerRef st \<noteq> None \<and> animationActionRef st \<noteq> None \<and> offPlaysOriginal st \<and>
      \<not> inPlace (toggles ts st) \<longrightarrow>
        map_option clipRef (animationActionRef (toggles ts st)) = Some r \<and>
        actionTracks (toggles ts st) = Some (tracks (clips st ! r))) \<and>
     map_option time (animationActionRef (toggles ts st))
       = map_option time (animationActionRef st) \<and>
     isAnimationPlaying (toggles ts st) = isAnimationPlaying st \<and>
     (animationMixerRef st \<noteq> None \<and> animationActionRef st \<noteq> None \<and> inPlace st \<noteq> e \<longrightarrow>
        map_option time (animationActionRef (handleInPlaceChange e st))
          = map_option time (animationActionRef st) \<and>
        map_option paused (animationActionRef (handleInPlaceChange e st))
          = Some (\<not> isAnimationPlaying st) \<and>
        isAnimationPlaying (handleInPlaceChange e st) = isAnimationPlaying st)"
    by blast
qed

lemma demo_on: "actionTracks (toggles [True] demoPlayback)
   = Some [''mixamorigHips.quaternion'', ''mixamorigSpine.quaternion'', ''mixamorigLeftArm.position'']"
  by (simp add: actionTracks_def demoPlayback_def demoClip_def demoAction_def
      handleInPlaceChange_def inPlaceEffect_def createInPlaceClip_def clipAction_def
      uncacheClip_def play_def reset_def isRootPositionTrack_def Let_def)

theorem C3_in_place_toggling_witness:
  "originalAnimationClipRef demoPlayback = Some 0 \<and> 0 < length (clips demoPlayback) \<and>
   animationMixerRef demoPlayback \<noteq> None \<and> animationActionRef demoPlayback \<noteq> None \<and>
   offPlaysOriginal demoPlayback \<and> \<not> inPlace (toggles [True, False] demoPlayback) \<and>
   inPlace demoPlayback \<noteq> True \<and>
   clips (toggles [True, False] demoPlayback) ! 0 = demoClip \<and>
   actionTracks (toggles [True] demoPlayback)
     = Some [''mixamorigHips.quaternion'', ''mixamorigSpine.quaternion'',
             ''mixamorigLeftArm.position''] \<and>
   actionTracks (toggles [True, False] demoPlayback) = Some (tracks demoClip) \<and>
   map_option time (animationActionRef (toggles [True, False] demoPlayback)) = Some 2 \<and>
   map_option paused (animationActionRef (handleInPlaceChange True demoPlayback)) = Some False"
proof -
  have h: "originalAnimationClipRef demoPlayback = Some 0 \<and> 0 < length (clips demoPlayback)"
    by (simp add: demoPlayback_def)
  have g: "animationMixerRef demoPlayback \<noteq> None \<and> animationActionRef demoPlayback \<noteq> None \<and>
      offPlaysOriginal demoPlayback \<and> inPlace demoPlayback \<noteq> True"
    by (simp add: demoPlayback_def offPlaysOriginal_def demoAction_def)
  have n: "\<not> inPlace (toggles [True, False] demoPlayback)"
    using toggles_inPlace [of "[True, False]" demoPlayback] by simp
  have c: "clips demoPlayback ! 0 = demoClip" "isAnimationPlaying demoPlayback"
    "map_option time (animationActionRef demoPlayback) = Some 2"
    by (simp_all add: demoPlayback_def demoAction_def)
  show ?thesis
    using C3_in_place_toggling [of demoPlayback 0 "[True, False]" True] h g n c demo_on
    by simp
qed

subsection \<open>C4: the compatibility gate\<close>








subsection \<open>C1 and C2: skeleton synthesis\<close>

lemma dom_addBone: "dom (addBone p c m) = dom m"
  by (auto simp: addBone_def Let_def split: option.splits if_splits)

lemma dom_linkChild: "dom (linkChild ms p pp m c) = dom m"
  by (auto simp: linkChild_def Let_def dom_addBone split: option.splits)

lemma dom_foldl_linkChild: "dom (foldl (linkChild ms p pp) m cs) = dom m"
  by (induction cs arbitrary: m) (simp_all add: dom_linkChild)

lemma dom_linkChildren: "dom (linkChildren ms m e) = dom m"
  by (auto simp: linkChildren_def dom_foldl_linkChild split: prod.splits option.splits)

lemma dom_foldl_linkChildren: "dom (foldl (linkChildren ms) m es) = dom m"
  by (induction es arbitrary: m) (simp_all add: dom_linkChildren)

lemma dom_foldl_createBones:
  "dom (foldl (\<lambda>boneMap marker.
              if placed marker
              then boneMap(markerId marker \<mapsto> newBone (boneNameOf (markerId marker)))
              else boneMap) acc ms)
   = dom acc \<union> markerId ` {m \<in> set ms. placed m}"
  by (induction ms arbitrary: acc) auto

lemma dom_createBones: "dom (createBones ms) = markerId ` {m \<in> set ms. placed m}"
  by (simp add: createBones_def dom_foldl_createBones)

lemma dom_linked: "dom (foldl (linkChildren ms) (createBones ms) hierarchy)
    = markerId ` {m \<in> set ms. placed m}"
  by (simp only: dom_foldl_linkChildren dom_createBones)

lemma dom_upd_same: "M k = Some b \<Longrightarrow> dom (M(k \<mapsto> v)) = dom M"
  by (simp add: insert_absorb domI)

lemma createBoneHierarchy_dom:
  assumes "createBoneHierarchy ms = Some (r, m)"
  shows "dom m = markerId ` {m \<in> set ms. placed m}"
proof -
  define M where "M = foldl (linkChildren ms) (createBones ms) hierarchy"
  have d: "dom M = markerId ` {m \<in> set ms. placed m}"
    unfolding M_def by (rule dom_linked)
  from assms have c: "(case M ''groin'' of
           None \<Rightarrow> None
         | Some rootBone \<Rightarrow>
             Some (''groin'',
               (case getMarkerPosition ms ''groin'' of
                  Some groinPos \<Rightarrow> M(''groin'' \<mapsto> rootBone\<lparr>jointPosition := groinPos\<rparr>)
                | None \<Rightarrow> M))) = Some (r, m)"
    unfolding createBoneHierarchy_def M_def Let_def .
  then obtain b where b: "M ''groin'' = Some b" by (cases "M ''groin''") simp_all
  show ?thesis
  proof (cases "getMarkerPosition ms ''groin''")
    case None
    with c b have "m = M" by auto
    with d show ?thesis by simp
  next
    case (Some g)
    with c b have "m = M(''groin'' \<mapsto> b\<lparr>jointPosition := g\<rparr>)" by auto
    then have "dom m = dom M" using b by (simp only: dom_upd_same)
    with d show ?thesis by simp
  qed
qed

lemma createBoneHierarchy_None:
  "(createBoneHierarchy ms = None) = (''groin'' \<notin> markerId ` {m \<in> set ms. placed m})"
proof -
  define M where "M = foldl (linkChildren ms) (createBones ms) hierarchy"
  have d: "dom M = markerId ` {m \<in> set ms. placed m}"
    unfolding M_def by (rule dom_linked)
  have "(createBoneHierarchy ms = None) = (M ''groin'' = None)"
    unfolding createBoneHierarchy_def M_def Let_def by (simp split: option.splits)
  also have "\<dots> = (''groin'' \<notin> dom M)" by (simp add: domIff)
  finally show ?thesis by (simp only: d)
qed

lemma synthesis_explicit:
  "synthesisOk (allPlaced [l1, l2, l3, l4, l5, l6, l7, l8, l9, l10, l11, l12, l13]
                          [p1, p2, p3, p4, p5, p6, p7, p8, p9, p10, p11, p12, p13])"
  by code_simp

lemma marker_eq:
  "markerId m = i \<Longrightarrow> placed m \<Longrightarrow>
   m = \<lparr>markerId = i, markerLabel = markerLabel m, markerPosition = markerPosition m, placed = True\<rparr>"
  by (cases m) simp

lemma markers_shape:
  assumes "map markerId ms = markerIds" and "list_all placed ms"
  shows "\<exists>l1 l2 l3 l4 l5 l6 l7 l8 l9 l10 l11 l12 l13 p1 p2 p3 p4 p5 p6 p7 p8 p9 p10 p11 p12 p13.
     ms = allPlaced [l1, l2, l3, l4, l5, l6, l7, l8, l9, l10, l11, l12, l13]
                    [p1, p2, p3, p4, p5, p6, p7, p8, p9, p10, p11, p12, p13]"
  using assms
  apply (clarsimp simp: markerIds_def map_eq_Cons_conv allPlaced_def)
  apply (auto dest: marker_eq)
  done

lemma staged: "map markerId stagedMarkers = markerIds \<and> list_all placed stagedMarkers"
  by code_simp

lemma distinct_markerIds: "distinct markerIds \<and> length markerIds = 13"
  by code_simp

lemma preorder_markerIds: "distinct preorder \<and> set preorder = set markerIds"
  by code_simp

lemma jointOffsetOk_ex:
  "jointOffsetOk ms m p c \<Longrightarrow>
   \<exists>b cp pp. m c = Some b \<and> getMarkerPosition ms c = Some cp \<and>
         getMarkerPosition ms p = Some pp \<and> jointPosition b = sub cp pp \<and>
         jointParent b = Some p"
  unfolding jointOffsetOk_def by (simp split: option.splits)

lemma offsetsOk_Ball:
  assumes "offsetsOk ms m"
  shows "\<forall>(p, cs) \<in> set hierarchy. \<forall>c \<in> set cs.
      \<exists>b cp pp. m c = Some b \<and> getMarkerPosition ms c = Some cp \<and>
         getMarkerPosition ms p = Some pp \<and> jointPosition b = sub cp pp \<and>
         jointParent b = Some p"
proof (intro ballI, clarify)
  fix p cs c
  assume "(p, cs) \<in> set hierarchy" and "c \<in> set cs"
  with assms have "jointOffsetOk ms m p c"
    unfolding offsetsOk_def list_all_iff by blast
  then show "\<exists>b cp pp. m c = Some b \<and> getMarkerPosition ms c = Some cp \<and>
         getMarkerPosition ms p = Some pp \<and> jointPosition b = sub cp pp \<and>
         jointParent b = Some p"
    by (rule jointOffsetOk_ex)
qed

lemma rootOk_ex:
  "rootOk ms m \<Longrightarrow>
   \<exists>root g. m ''groin'' = Some root \<and> getMarkerPosition ms ''groin'' = Some g \<and>
      jointPosition root = g \<and> jointParent root = None \<and> jointName root = ''mixamorigGroin''"
  unfolding rootOk_def by (auto split: option.splits)

text \<open>
  C1. For every marker list with the 13 fixed ids in which all markers are placed,
  \<^verbatim>\<open>createBoneHierarchy\<close> returns the groin bone; the store holds exactly 13 bones
  (one per marker id); the traversal from the groin bone visits each of them exactly
  once, so they form a single tree rooted there; the root's position is the groin
  marker's position and it has no parent; and for every (parent, child) pair of the
  hierarchy table the child's position is the child marker's position minus the parent
  marker's position, and its parent is that parent.
\<close>

theorem C1_bone_hierarchy:
  "map markerId ms = markerIds \<and> list_all placed ms \<longrightarrow>
     (\<exists>m. createBoneHierarchy ms = Some (''groin'', m) \<and>
          dom m = set markerIds \<and> card (dom m) = 13 \<and>
          traverse 13 m ''groin'' = Some preorder \<and> distinct preorder \<and>
          set preorder = dom m \<and>
          (\<exists>root g. m ''groin'' = Some root \<and> getMarkerPosition ms ''groin'' = Some g \<and>
             jointPosition root = g \<and> jointParent root = None \<and>
             jointName root = ''mixamorigGroin'') \<and>
          (\<forall>(p, cs) \<in> set hierarchy. \<forall>c \<in> set cs.
             \<exists>b cp pp. m c = Some b \<and> getMarkerPosition ms c = Some cp \<and>
               getMarkerPosition ms p = Some pp \<and> jointPosition b = sub cp pp \<and>
               jointParent b = Some p))"
proof (intro impI, elim conjE)
  assume ids: "map markerId ms = markerIds" and pl: "list_all placed ms"
  from markers_shape [OF ids pl] synthesis_explicit have ok: "synthesisOk ms" by auto
  then obtain r m where c: "createBoneHierarchy ms = Some (r, m)"
    and r: "r = ''groin''" and t: "traverse 13 m r = Some preorder"
    and o: "offsetsOk ms m" and ro: "rootOk ms m"
    unfolding synthesisOk_def by (auto split: option.splits)
  have "{x \<in> set ms. placed x} = set ms" using pl by (auto simp: list_all_iff)
  then have "markerId ` {x \<in> set ms. placed x} = set (map markerId ms)" by simp
  then have d: "dom m = set markerIds"
    using createBoneHierarchy_dom [OF c] ids by simp
  have k: "card (dom m) = 13"
    using d distinct_markerIds by (simp add: distinct_card)
  have p: "distinct preorder" "set preorder = dom m"
    using preorder_markerIds d by simp_all
  from c r t d k p rootOk_ex [OF ro] offsetsOk_Ball [OF o]
  show "\<exists>m. createBoneHierarchy ms = Some (''groin'', m) \<and>
          dom m = set markerIds \<and> card (dom m) = 13 \<and>
          traverse 13 m ''groin'' = Some preorder \<and> distinct preorder \<and>
          set preorder = dom m \<and>
          (\<exists>root g. m ''groin'' = Some root \<and> getMarkerPosition ms ''groin'' = Some g \<and>
             jointPosition root = g \<and> jointParent root = None \<and>
             jointName root = ''mixamorigGroin'') \<and>
          (\<forall>(p, cs) \<in> set hierarchy. \<forall>c \<in> set cs.
             \<exists>b cp pp. m c = Some b \<and> getMarkerPosition ms c = Some cp \<and>
               getMarkerPosition ms p = Some pp \<and> jointPosition b = sub cp pp \<and>
               jointParent b = Some p)"
    by blast
qed

lemma staged_positions:
  "getMarkerPosition stagedMarkers ''leftWrist'' = Some (Vector3 (- 5 / 2) (- 3 / 10) 0) \<and>
   getMarkerPosition stagedMarkers ''leftElbow'' = Some (Vector3 (- 5 / 2) (3 / 10) 0) \<and>
   getMarkerPosition stagedMarkers ''groin'' = Some (Vector3 (- 5 / 2) (- 9 / 10) 0)"
  by code_simp

lemma wrist_in_table: "(''leftElbow'', [''leftWrist'']) \<in> set hierarchy"
  by (simp add: hierarchy_def)

theorem C1_bone_hierarchy_witness:
  "map markerId stagedMarkers = markerIds \<and> list_all placed stagedMarkers \<and>
   (\<exists>m. createBoneHierarchy stagedMarkers = Some (''groin'', m) \<and> card (dom m) = 13 \<and>
        map_option jointPosition (m ''groin'') = Some (Vector3 (- 5 / 2) (- 9 / 10) 0) \<and>
        map_option jointPosition (m ''leftWrist'') = Some (Vector3 0 (- 3 / 5) 0) \<and>
        map_option jointParent (m ''leftWrist'') = Some (Some ''leftElbow''))"
proof -
  from C1_bone_hierarchy [of stagedMarkers] staged
  obtain m where m: "createBoneHierarchy stagedMarkers = Some (''groin'', m)"
    and k: "card (dom m) = 13"
    and root: "\<exists>root g. m ''groin'' = Some root \<and>
        getMarkerPosition stagedMarkers ''groin'' = Some g \<and> jointPosition root = g \<and>
        jointParent root = None \<and> jointName root = ''mixamorigGroin''"
    and off: "\<forall>(p, cs) \<in> set hierarchy. \<forall>c \<in> set cs.
             \<exists>b cp pp. m c = Some b \<and> getMarkerPosition stagedMarkers c = Some cp \<and>
               getMarkerPosition stagedMarkers p = Some pp \<and> jointPosition b = sub cp pp \<and>
               jointParent b = Some p"
    by blast
  from off wrist_in_table
  have "\<forall>c \<in> set [''leftWrist''].
             \<exists>b cp pp. m c = Some b \<and> getMarkerPosition stagedMarkers c = Some cp \<and>
               getMarkerPosition stagedMarkers ''leftElbow'' = Some pp \<and>
               jointPosition b = sub cp pp \<and> jointParent b = Some ''leftElbow''"
    by blast
  then obtain b cp pp where
    "m ''leftWrist'' = Some b" "getMarkerPosition stagedMarkers ''leftWrist'' = Some cp"
    "getMarkerPosition stagedMarkers ''leftElbow'' = Some pp" "jointPosition b = sub cp pp"
    "jointParent b = Some ''leftElbow''"
    by auto
  then have w: "map_option jointPosition (m ''leftWrist'') = Some (Vector3 0 (- 3 / 5) 0)"
     "map_option jointParent (m ''leftWrist'') = Some (Some ''leftElbow'')"
    using staged_positions by (auto simp: sub_def)
  from root staged_positions
  have g: "map_option jointPosition (m ''groin'') = Some (Vector3 (- 5 / 2) (- 9 / 10) 0)"
    by auto
  from staged m k g w show ?thesis by blast
qed

text \<open>
  C2. When no placed marker has the id \<^verbatim>\<open>groin\<close>, \<^verbatim>\<open>createBoneHierarchy\<close> returns
  null, and \<^verbatim>\<open>handleGenerateBones\<close> leaves the scene, \<^verbatim>\<open>bonesGroupRef\<close>, the
  skeleton lines, the \<^verbatim>\<open>bonesGenerated\<close> flag and the markers as they were; the only
  effect is the error notice (given when the scene and the line group exist).
\<close>

theorem C2_missing_root:
  "(\<forall>m \<in> set (markers st). markerId m = ''groin'' \<longrightarrow> \<not> placed m) \<longrightarrow>
     createBoneHierarchy (markers st) = None \<and>
     sceneRef (handleGenerateBones st) = sceneRef st \<and>
     bonesGroupRef (handleGenerateBones st) = bonesGroupRef st \<and>
     skeletonRef (handleGenerateBones st) = skeletonRef st \<and>
     bonesGenerated (handleGenerateBones st) = bonesGenerated st \<and>
     markers (handleGenerateBones st) = markers st \<and>
     rigToasts (handleGenerateBones st) =
       (if skeletonRef st \<noteq> None \<and> sceneRef st \<noteq> None
        then rigToasts st @ [ErrorJerarquia] else rigToasts st)"
proof
  assume h: "\<forall>m \<in> set (markers st). markerId m = ''groin'' \<longrightarrow> \<not> placed m"
  then have "''groin'' \<notin> markerId ` {m \<in> set (markers st). placed m}" by auto
  then have n: "createBoneHierarchy (markers st) = None"
    using createBoneHierarchy_None [of "markers st"] by blast
  show "createBoneHierarchy (markers st) = None \<and>
     sceneRef (handleGenerateBones st) = sceneRef st \<and>
     bonesGroupRef (handleGenerateBones st) = bonesGroupRef st \<and>
     skeletonRef (handleGenerateBones st) = skeletonRef st \<and>
     bonesGenerated (handleGenerateBones st) = bonesGenerated st \<and>
     markers (handleGenerateBones st) = markers st \<and>
     rigToasts (handleGenerateBones st) =
       (if skeletonRef st \<noteq> None \<and> sceneRef st \<noteq> None
        then rigToasts st @ [ErrorJerarquia] else rigToasts st)"
    using n by (auto simp: handleGenerateBones_def split: option.splits)
qed

lemma resetRigger_groin:
  "list_all (\<lambda>m. markerId m \<noteq> ''groin'' \<or> \<not> placed m) (markers resetRigger)"
  by code_simp

theorem C2_missing_root_witness:
  "list_all (\<lambda>m. markerId m \<noteq> ''groin'' \<or> \<not> placed m) (markers resetRigger) \<and>
   createBoneHierarchy (markers resetRigger) = None \<and>
   bonesGroupRef (handleGenerateBones resetRigger) = Some previousSkeleton \<and>
   sceneRef (handleGenerateBones resetRigger)
     = Some [OtherObject 0, BoneRoot (fst previousSkeleton) (snd previousSkeleton)] \<and>
   rigToasts (handleGenerateBones resetRigger) = [ErrorJerarquia]"
proof -
  have h: "\<forall>m \<in> set (markers resetRigger). markerId m = ''groin'' \<longrightarrow> \<not> placed m"
    using resetRigger_groin unfolding list_all_iff by blast
  have f: "sceneRef resetRigger
       = Some [OtherObject 0, BoneRoot (fst previousSkeleton) (snd previousSkeleton)]"
    "bonesGroupRef resetRigger = Some previousSkeleton" "skeletonRef resetRigger = Some []"
    "rigToasts resetRigger = []"
    by (simp_all add: resetRigger_def)
  show ?thesis
    using C2_missing_root [of resetRigger] h f resetRigger_groin by simp
qed

subsection \<open>C8: normalisation of a loaded model\<close>

lemma min_affine: "0 \<le> (k::real) \<Longrightarrow> min (t + a * k) (t + b * k) = t + min a b * k"
proof (cases "a \<le> b")
  case True
  assume "0 \<le> k"
  with True have "a * k \<le> b * k" by (simp add: mult_right_mono)
  with True show ?thesis by (simp add: min_def)
next
  case False
  assume "0 \<le> k"
  with False have "b * k \<le> a * k" by (simp add: mult_right_mono)
  with False show ?thesis by (auto simp: min_def)
qed

lemma max_affine: "0 \<le> (k::real) \<Longrightarrow> max (t + a * k) (t + b * k) = t + max a b * k"
proof (cases "a \<le> b")
  case True
  assume "0 \<le> k"
  with True have "a * k \<le> b * k" by (simp add: mult_right_mono)
  with True show ?thesis by (simp add: max_def)
next
  case False
  assume "0 \<le> k"
  with False have "b * k \<le> a * k" by (simp add: mult_right_mono)
  with False show ?thesis by (auto simp: max_def)
qed

lemma vmin_moveScale: "0 \<le> k \<Longrightarrow> vmin (moveScale t k a) (moveScale t k b) = moveScale t k (vmin a b)"
  by (simp add: vmin_def moveScale_def add_def multiplyScalar_def min_affine)

lemma vmax_moveScale: "0 \<le> k \<Longrightarrow> vmax (moveScale t k a) (moveScale t k b) = moveScale t k (vmax a b)"
  by (simp add: vmax_def moveScale_def add_def multiplyScalar_def max_affine)

lemma fold_vmin_moveScale:
  "0 \<le> k \<Longrightarrow> fold vmin (map (moveScale t k) ws) (moveScale t k w) = moveScale t k (fold vmin ws w)"
  by (induction ws arbitrary: w) (simp_all add: vmin_moveScale)

lemma fold_vmax_moveScale:
  "0 \<le> k \<Longrightarrow> fold vmax (map (moveScale t k) ws) (moveScale t k w) = moveScale t k (fold vmax ws w)"
  by (induction ws arbitrary: w) (simp_all add: vmax_moveScale)

lemma expandByPoints_moveScale:
  "0 \<le> k \<Longrightarrow>
   expandByPoints (map (moveScale t k) ws) =
     map_option (\<lambda>b. \<lparr>boxMin = moveScale t k (boxMin b), boxMax = moveScale t k (boxMax b)\<rparr>)
       (expandByPoints ws)"
  by (cases ws) (simp_all add: expandByPoints_def fold_vmin_moveScale fold_vmax_moveScale)

lemma applyMatrix3_scale:
  "applyMatrix3 M (multiplyVectors (multiplyScalar s k) p)
     = multiplyScalar (applyMatrix3 M (multiplyVectors s p)) k"
  by (cases M) (simp add: applyMatrix3_def multiplyVectors_def multiplyScalar_def dot_def
      algebra_simps)

lemma worldPoint_viewer:
  "objPosition ob = Vector3 0 0 0 \<Longrightarrow>
   worldPoint (ob\<lparr>objScale := multiplyScalar (objScale ob) k, objPosition := t\<rparr>) p
     = moveScale t k (worldPoint ob p)"
  by (simp add: worldPoint_def applyMatrix3_scale moveScale_def add_def)

lemma worldPoint_rigger:
  "objPosition ob = Vector3 0 0 0 \<Longrightarrow> objScale ob = Vector3 1 1 1 \<Longrightarrow>
   worldPoint (ob\<lparr>objScale := Vector3 k k k, objPosition := t\<rparr>) p
     = moveScale t k (worldPoint ob p)"
  using applyMatrix3_scale [of "objRotation ob" "Vector3 1 1 1" k p]
  by (simp add: worldPoint_def moveScale_def add_def multiplyScalar_def)

lemma grounded_moveScale:
  assumes "expandByPoints ws = Some box" and "0 < k"
  shows "case expandByPoints
            (map (moveScale (Vector3 (- vx (multiplyScalar (getCenter box) k))
                               (- 2 - vy (multiplyScalar (boxMin box) k))
                               (- vz (multiplyScalar (getCenter box) k))) k) ws) of
           None \<Rightarrow> False
         | Some b \<Rightarrow> vy (boxMin b) = - 2 \<and> vx (getCenter b) = 0 \<and> vz (getCenter b) = 0"
  using assms
  by (simp add: expandByPoints_moveScale moveScale_def add_def multiplyScalar_def getCenter_def
      algebra_simps)

lemma setFromObject_viewer:
  assumes "objPosition ob = Vector3 0 0 0"
  shows "setFromObject (ob\<lparr>objScale := multiplyScalar (objScale ob) k, objPosition := t\<rparr>)
     = expandByPoints (map (moveScale t k) (map (worldPoint ob) (objPoints ob)))"
proof -
  have "worldPoint (ob\<lparr>objScale := multiplyScalar (objScale ob) k, objPosition := t\<rparr>)
      = (\<lambda>p. moveScale t k (worldPoint ob p))"
    by (rule ext) (simp add: worldPoint_viewer [OF assms])
  then show ?thesis by (simp add: setFromObject_def comp_def)
qed

lemma setFromObject_rigger:
  assumes "objPosition ob = Vector3 0 0 0" and "objScale ob = Vector3 1 1 1"
  shows "setFromObject (ob\<lparr>objScale := Vector3 k k k, objPosition := t\<rparr>)
     = expandByPoints (map (moveScale t k) (map (worldPoint ob) (objPoints ob)))"
proof -
  have "worldPoint (ob\<lparr>objScale := Vector3 k k k, objPosition := t\<rparr>)
      = (\<lambda>p. moveScale t k (worldPoint ob p))"
    by (rule ext) (simp add: worldPoint_rigger [OF assms])
  then show ?thesis by (simp add: setFromObject_def comp_def)
qed

lemma normalizeViewer_grounded:
  assumes p: "objPosition ob = Vector3 0 0 0" and b: "setFromObject ob = Some box"
    and d: "0 < maxDimOf box"
  shows "\<exists>ob'. normalizeViewer ob = Some ob' \<and> groundedAndCentred ob'"
proof -
  define k where "k = 4 / maxDimOf box"
  define t where "t = Vector3 (- vx (multiplyScalar (getCenter box) k))
                               (- 2 - vy (multiplyScalar (boxMin box) k))
                               (- vz (multiplyScalar (getCenter box) k))"
  have k: "0 < k" using d by (simp add: k_def)
  have n: "normalizeViewer ob
      = Some (ob\<lparr>objScale := multiplyScalar (objScale ob) k, objPosition := t\<rparr>)"
    using b d by (simp add: normalizeViewer_def js_div_def Let_def k_def t_def)
  have e: "expandByPoints (map (worldPoint ob) (objPoints ob)) = Some box"
    using b by (simp add: setFromObject_def)
  have "groundedAndCentred (ob\<lparr>objScale := multiplyScalar (objScale ob) k, objPosition := t\<rparr>)"
    unfolding groundedAndCentred_def setFromObject_viewer [OF p] t_def
    by (rule grounded_moveScale [OF e k])
  with n show ?thesis by blast
qed

lemma normalizeRigger_grounded:
  assumes p: "objPosition ob = Vector3 0 0 0" and s: "objScale ob = Vector3 1 1 1"
    and b: "setFromObject ob = Some box" and d: "0 < maxDimOf box"
  shows "\<exists>ob'. normalizeRigger ob = Some ob' \<and> groundedAndCentred ob'"
proof -
  define k where "k = 3 / maxDimOf box"
  define t where "t = Vector3 (- vx (multiplyScalar (getCenter box) k))
                               (- 2 - vy (multiplyScalar (boxMin box) k))
                               (- vz (multiplyScalar (getCenter box) k))"
  have k: "0 < k" using d by (simp add: k_def)
  have n: "normalizeRigger ob = Some (ob\<lparr>objScale := Vector3 k k k, objPosition := t\<rparr>)"
    using b d by (simp add: normalizeRigger_def js_div_def Let_def k_def t_def)
  have e: "expandByPoints (map (worldPoint ob) (objPoints ob)) = Some box"
    using b by (simp add: setFromObject_def)
  have "groundedAndCentred (ob\<lparr>objScale := Vector3 k k k, objPosition := t\<rparr>)"
    unfolding groundedAndCentred_def setFromObject_rigger [OF p s] t_def
    by (rule grounded_moveScale [OF e k])
  with n show ?thesis by blast
qed

text \<open>
  Where the normalisation does what it is written for: for a loaded model whose root is
  at the origin and whose bounding box has a positive largest dimension, the viewer's
  normalisation yields an object whose recomputed bounding box has its minimum Y at -2
  and its centre at X = 0 and Z = 0; the same holds for the auto-rigger's normalisation
  when, in addition, the root has unit scale.
\<close>

theorem normalization_grounded:
  "(objPosition ob = Vector3 0 0 0 \<and> setFromObject ob = Some box \<and> 0 < maxDimOf box \<longrightarrow>
      (\<exists>ob'. normalizeViewer ob = Some ob' \<and> groundedAndCentred ob')) \<and>
   (objPosition ob = Vector3 0 0 0 \<and> objScale ob = Vector3 1 1 1 \<and>
    setFromObject ob = Some box \<and> 0 < maxDimOf box \<longrightarrow>
      (\<exists>ob'. normalizeRigger ob = Some ob' \<and> groundedAndCentred ob'))"
  using normalizeViewer_grounded [of ob box] normalizeRigger_grounded [of ob box] by blast

lemma unitCube_box:
  "setFromObject unitCube = Some \<lparr>boxMin = Vector3 0 0 0, boxMax = Vector3 1 2 1\<rparr>"
  by (simp add: setFromObject_def expandByPoints_def unitCube_def worldPoint_def identity3_def
      applyMatrix3_def multiplyVectors_def dot_def add_def vmin_def vmax_def)

theorem normalization_grounded_witness:
  "objPosition unitCube = Vector3 0 0 0 \<and> objScale unitCube = Vector3 1 1 1 \<and>
   setFromObject unitCube = Some \<lparr>boxMin = Vector3 0 0 0, boxMax = Vector3 1 2 1\<rparr> \<and>
   0 < maxDimOf \<lparr>boxMin = Vector3 0 0 0, boxMax = Vector3 1 2 1\<rparr> \<and>
   (\<exists>ob'. normalizeViewer unitCube = Some ob' \<and> groundedAndCentred ob') \<and>
   (\<exists>ob'. normalizeRigger unitCube = Some ob' \<and> groundedAndCentred ob')"
proof -
  have h: "objPosition unitCube = Vector3 0 0 0" "objScale unitCube = Vector3 1 1 1"
    by (simp_all add: unitCube_def)
  have d: "0 < maxDimOf \<lparr>boxMin = Vector3 0 0 0, boxMax = Vector3 1 2 1\<rparr>"
    by (simp add: maxDimOf_def getSize_def sub_def)
  show ?thesis
    using normalization_grounded [of unitCube "\<lparr>boxMin = Vector3 0 0 0, boxMax = Vector3 1 2 1\<rparr>"]
      h d unitCube_box
    by simp
qed

lemma offsetRoot_viewer:
  "normalizeViewer offsetRoot
     = Some (offsetRoot\<lparr>objScale := Vector3 4 4 4, objPosition := Vector3 (- 2) (- 22) (- 2)\<rparr>)"
  by (simp add: normalizeViewer_def setFromObject_def expandByPoints_def offsetRoot_def
      worldPoint_def identity3_def applyMatrix3_def multiplyVectors_def dot_def add_def vmin_def
      vmax_def maxDimOf_def getSize_def getCenter_def sub_def multiplyScalar_def js_div_def)

lemma offsetRoot_box:
  "setFromObject (offsetRoot\<lparr>objScale := Vector3 4 4 4, objPosition := Vector3 (- 2) (- 22) (- 2)\<rparr>)
     = Some \<lparr>boxMin = Vector3 (- 2) (- 22) (- 2), boxMax = Vector3 2 (- 18) 2\<rparr>"
  by (simp add: setFromObject_def expandByPoints_def offsetRoot_def
      worldPoint_def identity3_def applyMatrix3_def multiplyVectors_def dot_def add_def vmin_def
      vmax_def)

text \<open>
  C8, at an input where it fails. The claim: after the normalisation of a loaded model
  the recomputed bounding box has its minimum Y at the ground level -2 and its centre
  at X = 0 and Z = 0. The box is measured in the world, but the new position replaces
  the old one: for a model whose root is at (0, 5, 0), with box corners (0, 0, 0) and
  (1, 1, 1) in the root frame, the viewer's normalisation gives scale 4 and position
  (-2, -22, -2), and the recomputed box has its minimum Y at -22. A model without
  geometry has no finite normalisation at all.
\<close>

theorem C8_offset_root_not_grounded:
  "normalizeViewer offsetRoot
     = Some (offsetRoot\<lparr>objScale := Vector3 4 4 4, objPosition := Vector3 (- 2) (- 22) (- 2)\<rparr>) \<and>
   map_option boxMin (setFromObject
       (offsetRoot\<lparr>objScale := Vector3 4 4 4, objPosition := Vector3 (- 2) (- 22) (- 2)\<rparr>))
     = Some (Vector3 (- 2) (- 22) (- 2)) \<and>
   \<not> groundedAndCentred
       (offsetRoot\<lparr>objScale := Vector3 4 4 4, objPosition := Vector3 (- 2) (- 22) (- 2)\<rparr>) \<and>
   normalizeViewer noGeometry = None \<and> normalizeRigger noGeometry = None"
  using offsetRoot_viewer offsetRoot_box
  by (simp add: groundedAndCentred_def normalizeViewer_def normalizeRigger_def setFromObject_def
      expandByPoints_def noGeometry_def)

subsection \<open>C7: request-id fencing\<close>

lemma normalizeViewer_objId: "normalizeViewer ob = Some ob' \<Longrightarrow> objId ob' = objId ob"
  by (auto simp: normalizeViewer_def Let_def split: option.splits)

lemma inScene_remove1: "inScene i (Some (remove1 x scene)) \<Longrightarrow> inScene i (Some scene)"
  using set_remove1_subset [of x scene] by (auto simp: inScene_def)

lemma inScene_placeholder: "inScene i (Some (scene @ [PlaceholderMesh])) = inScene i (Some scene)"
  by (auto simp: inScene_def)

lemma modelEffect_inScene:
  "inScene i (viewerScene (modelEffect u st)) \<Longrightarrow> inScene i (viewerScene st)"
  by (auto simp: modelEffect_def loadPlaceholder_def Let_def inScene_placeholder
      split: option.splits modelFormat.splits if_splits dest: inScene_remove1)

lemma modelEffect_id: "loadRequestIdRef st \<le> loadRequestIdRef (modelEffect u st)"
  by (auto simp: modelEffect_def loadPlaceholder_def Let_def
      split: option.splits modelFormat.splits)

lemma onLoad_inScene:
  "inScene i (viewerScene (onLoad r ob st)) \<Longrightarrow>
   inScene i (viewerScene st) \<or> (r = loadRequestIdRef st \<and> objId ob = i)"
  by (auto simp: onLoad_def Let_def inScene_def normalizeViewer_objId
      split: option.splits if_splits)

lemma onLoad_id: "loadRequestIdRef (onLoad r ob st) = loadRequestIdRef st"
  by (auto simp: onLoad_def Let_def split: option.splits)

lemma onError_inScene:
  "inScene i (viewerScene (onError r st)) \<Longrightarrow> inScene i (viewerScene st)"
  by (auto simp: onError_def loadPlaceholder_def inScene_placeholder split: option.splits if_splits)

lemma onError_id: "loadRequestIdRef (onError r st) = loadRequestIdRef st"
  by (auto simp: onError_def loadPlaceholder_def split: option.splits)

lemma viewerStep_fence:
  assumes "a < loadRequestIdRef st" and "\<not> inScene i (viewerScene st)"
    and "delivers i e = None \<or> delivers i e = Some a"
  shows "a < loadRequestIdRef (viewerStep e st) \<and> \<not> inScene i (viewerScene (viewerStep e st))"
proof (cases e)
  case (Issue u)
  then show ?thesis
    using assms modelEffect_inScene [of i u st] modelEffect_id [of st u] by auto
next
  case (Loaded r ob)
  then show ?thesis
    using assms onLoad_inScene [of i r ob st] by (auto simp: onLoad_id split: if_splits)
next
  case (LoadError r)
  then show ?thesis
    using assms onError_inScene [of i r st] by (auto simp: onError_id)
qed

lemma viewerRun_fence:
  "a < loadRequestIdRef st \<Longrightarrow> \<not> inScene i (viewerScene st) \<Longrightarrow>
   list_all (\<lambda>e. delivers i e = None \<or> delivers i e = Some a) es \<Longrightarrow>
   \<not> inScene i (viewerScene (viewerRun es st))"
proof (induction es arbitrary: st)
  case Nil
  then show ?case by simp
next
  case (Cons e es)
  from Cons.prems have "a < loadRequestIdRef (viewerStep e st) \<and>
      \<not> inScene i (viewerScene (viewerStep e st))"
    using viewerStep_fence [of a st i e] by simp
  with Cons.IH [of "viewerStep e st"] Cons.prems show ?case by simp
qed

lemma viewerRun_append: "viewerRun (es @ fs) st = viewerRun fs (viewerRun es st)"
  by (induction es arbitrary: st) simp_all

lemma viewerRun_id: "loadRequestIdRef st \<le> loadRequestIdRef (viewerRun es st)"
proof (induction es arbitrary: st)
  case Nil
  then show ?case by simp
next
  case (Cons e es)
  have "loadRequestIdRef st \<le> loadRequestIdRef (viewerStep e st)"
    by (cases e) (simp_all add: modelEffect_id onLoad_id onError_id)
  with Cons.IH [of "viewerStep e st"] show ?case by simp
qed

lemma modelEffect_ready:
  "viewerReady st \<Longrightarrow> viewerReady (modelEffect u st) \<and>
     loadRequestIdRef (modelEffect u st) = loadRequestIdRef st + 1"
  by (auto simp: viewerReady_def modelEffect_def loadPlaceholder_def Let_def
      split: option.splits modelFormat.splits)

lemma viewerStep_ready: "viewerReady st \<Longrightarrow> viewerReady (viewerStep e st)"
  by (cases e) (auto simp: viewerReady_def modelEffect_def loadPlaceholder_def Let_def onLoad_def
      onError_def split: option.splits modelFormat.splits)

lemma viewerRun_ready: "viewerReady st \<Longrightarrow> viewerReady (viewerRun es st)"
  by (induction es arbitrary: st) (simp_all add: viewerStep_ready)

lemma viewerStep_nodeliver:
  "delivers i e = None \<Longrightarrow> \<not> inScene i (viewerScene st) \<Longrightarrow>
   \<not> inScene i (viewerScene (viewerStep e st))"
proof (cases e)
  case (Issue u)
  assume "\<not> inScene i (viewerScene st)"
  with Issue show ?thesis using modelEffect_inScene [of i u st] by auto
next
  case (Loaded r ob)
  assume "delivers i e = None" and "\<not> inScene i (viewerScene st)"
  with Loaded show ?thesis using onLoad_inScene [of i r ob st] by (auto split: if_splits)
next
  case (LoadError r)
  assume "\<not> inScene i (viewerScene st)"
  with LoadError show ?thesis using onError_inScene [of i r st] by auto
qed

lemma viewerRun_nodeliver:
  "list_all (\<lambda>e. delivers i e = None) es \<Longrightarrow> \<not> inScene i (viewerScene st) \<Longrightarrow>
   \<not> inScene i (viewerScene (viewerRun es st))"
  by (induction es arbitrary: st) (simp_all add: viewerStep_nodeliver)

lemma viewer_scenario:
  assumes ready: "viewerReady st0" and fresh: "\<not> inScene i (viewerScene st0)"
    and mid: "list_all (\<lambda>e. delivers i e = None) mid"
    and later: "list_all (\<lambda>e. delivers i e = None \<or> delivers i e = Some (loadRequestIdRef st0 + 1)) later"
  shows "\<not> inScene i (viewerScene (viewerRun (Issue fa # mid @ Issue fb # later) st0))"
proof -
  define stA where "stA = modelEffect fa st0"
  define stM where "stM = viewerRun mid stA"
  define stB where "stB = modelEffect fb stM"
  have a: "loadRequestIdRef stA = loadRequestIdRef st0 + 1" and rA: "viewerReady stA"
    using modelEffect_ready [OF ready, of fa] by (simp_all add: stA_def)
  have nA: "\<not> inScene i (viewerScene stA)"
    using fresh modelEffect_inScene [of i fa st0] by (auto simp: stA_def)
  have nM: "\<not> inScene i (viewerScene stM)"
    unfolding stM_def by (rule viewerRun_nodeliver [OF mid nA])
  have rM: "viewerReady stM" unfolding stM_def by (rule viewerRun_ready [OF rA])
  have iM: "loadRequestIdRef stA \<le> loadRequestIdRef stM"
    unfolding stM_def by (rule viewerRun_id)
  have iB: "loadRequestIdRef st0 + 1 < loadRequestIdRef stB"
    using modelEffect_ready [OF rM, of fb] iM a by (simp add: stB_def)
  have nB: "\<not> inScene i (viewerScene stB)"
    using nM modelEffect_inScene [of i fb stM] by (auto simp: stB_def)
  have "\<not> inScene i (viewerScene (viewerRun later stB))"
    by (rule viewerRun_fence [OF iB nB later])
  then show ?thesis
    by (simp add: viewerRun_append stA_def stM_def stB_def)
qed

lemma centreReplacer_objId: "centreReplacer ob = Some ob' \<Longrightarrow> objId ob' = objId ob"
  by (auto simp: centreReplacer_def Let_def split: option.splits)

lemma replacerStep_inScene:
  "inScene i (replacerScene (replacerStep e st)) \<Longrightarrow>
   inScene i (replacerScene st) \<or> delivers i e = Some (replacerRequestIdRef st)"
proof (cases e)
  case (Issue u)
  assume "inScene i (replacerScene (replacerStep e st))"
  with Issue show ?thesis
    by (auto simp: replacerEffect_def Let_def split: option.splits if_splits)
next
  case (Loaded r ob)
  assume h: "inScene i (replacerScene (replacerStep e st))"
  show ?thesis
  proof (cases "r = replacerRequestIdRef st")
    case False
    with h Loaded show ?thesis by (simp add: loadModelResume_def)
  next
    case True
    show ?thesis
    proof (cases "replacerScene st")
      case None
      with h Loaded True show ?thesis by (simp add: loadModelResume_def inScene_def)
    next
      case (Some scene)
      define scene1 where "scene1 = (case characterMeshRef st of
                             None \<Rightarrow> scene | Some old \<Rightarrow> remove1 old scene)"
      have sub: "inScene i (Some scene1) \<Longrightarrow> inScene i (Some scene)"
        unfolding scene1_def by (auto split: option.splits dest: inScene_remove1)
      from h Loaded True Some have
        "inScene i (Some scene1) \<or> objId ob = i"
        by (auto simp: loadModelResume_def Let_def scene1_def inScene_def centreReplacer_objId
            split: option.splits if_splits)
      with sub Some Loaded True show ?thesis by auto
    qed
  qed
next
  case (LoadError r)
  assume "inScene i (replacerScene (replacerStep e st))"
  with LoadError show ?thesis
    by (auto simp: loadModelFailed_def split: if_splits)
qed

lemma replacerStep_id: "replacerRequestIdRef st \<le> replacerRequestIdRef (replacerStep e st)"
  by (cases e) (auto simp: replacerEffect_def loadModelResume_def loadModelFailed_def Let_def
      split: option.splits)

lemma replacerRun_id: "replacerRequestIdRef st \<le> replacerRequestIdRef (replacerRun es st)"
proof (induction es arbitrary: st)
  case Nil
  then show ?case by simp
next
  case (Cons e es)
  from Cons.IH [of "replacerStep e st"] replacerStep_id [of st e] show ?case by simp
qed

lemma replacerRun_append: "replacerRun (es @ fs) st = replacerRun fs (replacerRun es st)"
  by (induction es arbitrary: st) simp_all

lemma replacerRun_fence:
  "a < replacerRequestIdRef st \<Longrightarrow> \<not> inScene i (replacerScene st) \<Longrightarrow>
   list_all (\<lambda>e. delivers i e = None \<or> delivers i e = Some a) es \<Longrightarrow>
   \<not> inScene i (replacerScene (replacerRun es st))"
proof (induction es arbitrary: st)
  case Nil
  then show ?case by simp
next
  case (Cons e es)
  from Cons.prems have d: "delivers i e \<noteq> Some (replacerRequestIdRef st)" by auto
  have n: "\<not> inScene i (replacerScene (replacerStep e st))"
    using replacerStep_inScene [of i e st] d Cons.prems(2) by blast
  have "a < replacerRequestIdRef (replacerStep e st)"
    using Cons.prems(1) replacerStep_id [of st e] by simp
  with Cons.IH [of "replacerStep e st"] n Cons.prems(3) show ?case by simp
qed

lemma replacerStep_ready: "replacerReady st \<Longrightarrow> replacerReady (replacerStep e st)"
  by (cases e) (auto simp: replacerReady_def replacerEffect_def loadModelResume_def
      loadModelFailed_def Let_def split: option.splits)

lemma replacerRun_ready: "replacerReady st \<Longrightarrow> replacerReady (replacerRun es st)"
  by (induction es arbitrary: st) (simp_all add: replacerStep_ready)

lemma replacerEffect_ready:
  "replacerReady st \<Longrightarrow>
   replacerRequestIdRef (replacerEffect (Some fmt) st) = replacerRequestIdRef st + 1 \<and>
   replacerScene (replacerEffect (Some fmt) st) = replacerScene st"
  by (auto simp: replacerReady_def replacerEffect_def Let_def)

lemma replacerRun_nodeliver:
  "list_all (\<lambda>e. delivers i e = None) es \<Longrightarrow> \<not> inScene i (replacerScene st) \<Longrightarrow>
   \<not> inScene i (replacerScene (replacerRun es st))"
proof (induction es arbitrary: st)
  case Nil
  then show ?case by simp
next
  case (Cons e es)
  have "\<not> inScene i (replacerScene (replacerStep e st))"
    using replacerStep_inScene [of i e st] Cons.prems by auto
  with Cons.IH [of "replacerStep e st"] Cons.prems(1) show ?case by simp
qed

lemma replacer_scenario:
  assumes ready: "replacerReady st0" and fresh: "\<not> inScene i (replacerScene st0)"
    and mid: "list_all (\<lambda>e. delivers i e = None) mid"
    and later: "list_all (\<lambda>e. delivers i e = None \<or>
                   delivers i e = Some (replacerRequestIdRef st0 + 1)) later"
  shows "\<not> inScene i (replacerScene
            (replacerRun (Issue (Some fa) # mid @ Issue (Some fb) # later) st0))"
proof -
  define stA where "stA = replacerEffect (Some fa) st0"
  define stM where "stM = replacerRun mid stA"
  define stB where "stB = replacerEffect (Some fb) stM"
  have a: "replacerRequestIdRef stA = replacerRequestIdRef st0 + 1"
    and sA: "replacerScene stA = replacerScene st0"
    using replacerEffect_ready [OF ready, of fa] by (simp_all add: stA_def)
  have rA: "replacerReady stA"
    using replacerStep_ready [OF ready, of "Issue (Some fa)"] by (simp add: stA_def)
  have nA: "\<not> inScene i (replacerScene stA)" using fresh sA by simp
  have nM: "\<not> inScene i (replacerScene stM)"
    unfolding stM_def by (rule replacerRun_nodeliver [OF mid nA])
  have rM: "replacerReady stM" unfolding stM_def by (rule replacerRun_ready [OF rA])
  have iM: "replacerRequestIdRef stA \<le> replacerRequestIdRef stM"
    unfolding stM_def by (rule replacerRun_id)
  have iB: "replacerRequestIdRef st0 + 1 < replacerRequestIdRef stB"
    using replacerEffect_ready [OF rM, of fb] iM a by (simp add: stB_def)
  have nB: "\<not> inScene i (replacerScene stB)"
    using nM replacerEffect_ready [OF rM, of fb] by (simp add: stB_def)
  have "\<not> inScene i (replacerScene (replacerRun later stB))"
    by (rule replacerRun_fence [OF iB nB later])
  then show ?thesis
    by (simp add: replacerRun_append stA_def stM_def stB_def)
qed

lemma onLoad_stale:
  "requestId \<noteq> loadRequestIdRef st \<Longrightarrow>
   onLoad requestId ob st = st\<lparr>disposed := disposed st @ objResources ob\<rparr>"
  by (simp add: onLoad_def)

lemma loadModelResume_stale:
  "requestId \<noteq> replacerRequestIdRef st \<Longrightarrow>
   loadModelResume requestId ob st = st\<lparr>replacerDisposed := replacerDisposed st @ objResources ob\<rparr>"
  by (simp add: loadModelResume_def)

text \<open>
  C7. In the viewer and in the skeleton replacer alike: a result that arrives with a
  request id other than the current one changes nothing but the set of disposed
  resources, to which its geometries and materials are added; an object enters the
  scene only under the current request id; and in every run in which request A is
  issued, then (after events that do not deliver A's object) request B is issued, A's
  object is not in the scene after any later events, in which A's object may arrive
  under A's request id.
\<close>

theorem C7_request_fencing:
  "(requestId \<noteq> loadRequestIdRef st \<longrightarrow>
      onLoad requestId ob st = st\<lparr>disposed := disposed st @ objResources ob\<rparr>) \<and>
   (inScene i (viewerScene (onLoad requestId ob st)) \<and> \<not> inScene i (viewerScene st) \<longrightarrow>
      requestId = loadRequestIdRef st) \<and>
   (viewerReady st \<and> \<not> inScene i (viewerScene st) \<and>
    list_all (\<lambda>e. delivers i e = None) mid \<and>
    list_all (\<lambda>e. delivers i e = None \<or> delivers i e = Some (loadRequestIdRef st + 1)) later \<longrightarrow>
      \<not> inScene i (viewerScene (viewerRun (Issue fa # mid @ Issue fb # later) st))) \<and>
   (requestId \<noteq> replacerRequestIdRef rst \<longrightarrow>
      loadModelResume requestId ob rst
        = rst\<lparr>replacerDisposed := replacerDisposed rst @ objResources ob\<rparr>) \<and>
   (inScene i (replacerScene (loadModelResume requestId ob rst)) \<and>
    \<not> inScene i (replacerScene rst) \<longrightarrow> requestId = replacerRequestIdRef rst) \<and>
   (replacerReady rst \<and> \<not> inScene i (replacerScene rst) \<and>
    list_all (\<lambda>e. delivers i e = None) mid \<and>
    list_all (\<lambda>e. delivers i e = None \<or> delivers i e = Some (replacerRequestIdRef rst + 1)) later \<longrightarrow>
      \<not> inScene i (replacerScene
            (replacerRun (Issue (Some ga) # mid @ Issue (Some gb) # later) rst)))"
proof -
  have v2: "inScene i (viewerScene (onLoad requestId ob st)) \<and> \<not> inScene i (viewerScene st) \<longrightarrow>
      requestId = loadRequestIdRef st"
    using onLoad_inScene [of i requestId ob st] by blast
  have r2: "inScene i (replacerScene (loadModelResume requestId ob rst)) \<and>
    \<not> inScene i (replacerScene rst) \<longrightarrow> requestId = replacerRequestIdRef rst"
    using replacerStep_inScene [of i "Loaded requestId ob" rst] by (auto split: if_splits)
  show ?thesis
    using v2 r2 onLoad_stale [of requestId st ob] loadModelResume_stale [of requestId rst ob]
      viewer_scenario [of st i mid later fa fb] replacer_scenario [of rst i mid later ga gb]
    by blast
qed

lemma race_disposed:
  "disposed (viewerRun (Issue (Some Fbx) # [] @ Issue (Some Glb) # raceEvents) viewer0) = [1, 2] \<and>
   replacerDisposed (replacerRun (Issue (Some Fbx) # [] @ Issue (Some Glb) # raceEvents) replacer0)
     = [1, 2]"
  by (simp add: raceEvents_def viewer0_def replacer0_def modelEffect_def onLoad_def
      replacerEffect_def loadModelResume_def offsetRoot_def unitCube_def Let_def)

theorem C7_request_fencing_witness:
  "viewerReady viewer0 \<and> replacerReady replacer0 \<and>
   list_all (\<lambda>e. delivers 7 e = None \<or> delivers 7 e = Some (loadRequestIdRef viewer0 + 1))
     raceEvents \<and>
   \<not> inScene 7 (viewerScene
          (viewerRun (Issue (Some Fbx) # [] @ Issue (Some Glb) # raceEvents) viewer0)) \<and>
   \<not> inScene 7 (replacerScene
          (replacerRun (Issue (Some Fbx) # [] @ Issue (Some Glb) # raceEvents) replacer0)) \<and>
   disposed (viewerRun (Issue (Some Fbx) # [] @ Issue (Some Glb) # raceEvents) viewer0) = [1, 2]"
proof -
  have h: "viewerReady viewer0" "replacerReady replacer0"
    "\<not> inScene 7 (viewerScene viewer0)" "\<not> inScene 7 (replacerScene replacer0)"
    by (simp_all add: viewerReady_def replacerReady_def viewer0_def replacer0_def inScene_def)
  have l: "list_all (\<lambda>e. delivers 7 e = None \<or> delivers 7 e = Some (loadRequestIdRef viewer0 + 1))
     raceEvents"
    "list_all (\<lambda>e. delivers 7 e = None \<or> delivers 7 e = Some (replacerRequestIdRef replacer0 + 1))
     raceEvents"
    by (simp_all add: raceEvents_def offsetRoot_def unitCube_def viewer0_def replacer0_def)
  have m: "list_all (\<lambda>e. delivers 7 e = None) []" by simp
  from C7_request_fencing [of 0 viewer0 offsetRoot 7 "[]" raceEvents "Some Fbx" "Some Glb"
        replacer0 Fbx Glb] h l m race_disposed
  show ?thesis by blast
qed

subsection \<open>C6: dragging a marker\<close>

lemma move_surface:
  "cameraReady st \<Longrightarrow> characterMeshReady st \<Longrightarrow> draggedMarkerRef st = Some d \<Longrightarrow>
   modelIntersects ev = point # rest \<Longrightarrow>
   handleMouseMove ev st = setDraggedPosition d point st"
  by (simp add: handleMouseMove_def)

lemma move_plane:
  "cameraReady st \<Longrightarrow> characterMeshReady st \<Longrightarrow> draggedMarkerRef st = Some d \<Longrightarrow>
   modelIntersects ev = [] \<Longrightarrow> find (\<lambda>m. markerId m = d) (dragMarkers st) = Some cur \<Longrightarrow>
   distanceToPlane (pointerRay ev)
     (setFromNormalAndCoplanarPoint (cameraDirection ev) (markerPosition cur)) = Some t \<Longrightarrow>
   handleMouseMove ev st = setDraggedPosition d (rayAt (pointerRay ev) t) st"
  by (simp add: handleMouseMove_def intersectPlane_def)

lemma move_no_intersection:
  "cameraReady st \<Longrightarrow> characterMeshReady st \<Longrightarrow> draggedMarkerRef st = Some d \<Longrightarrow>
   modelIntersects ev = [] \<Longrightarrow> find (\<lambda>m. markerId m = d) (dragMarkers st) = Some cur \<Longrightarrow>
   distanceToPlane (pointerRay ev)
     (setFromNormalAndCoplanarPoint (cameraDirection ev) (markerPosition cur)) = None \<Longrightarrow>
   handleMouseMove ev st = setDraggedPosition d (Vector3 0 0 0) st"
  by (simp add: handleMouseMove_def intersectPlane_def)

text \<open>
  C6, at the input where it fails: the pointer ray hits neither the model nor the plane
  through the marker (the marker at (1, 2, 5) lies behind the camera at the origin
  looking along -Z), and the handler moves the marker to (0, 0, 0) instead of leaving
  it where it is. The two lemmas before state the cases that behave as claimed.
\<close>

theorem C6_no_intersection_moves_marker:
  "modelIntersects offModelMove = [] \<and>
   distanceToPlane (pointerRay offModelMove)
     (setFromNormalAndCoplanarPoint (cameraDirection offModelMove) (Vector3 1 2 5)) = None \<and>
   map markerPosition (dragMarkers markerBehindCamera) = [Vector3 1 2 5] \<and>
   map markerPosition (dragMarkers (handleMouseMove offModelMove markerBehindCamera))
     = [Vector3 0 0 0]"
  by (simp add: handleMouseMove_def intersectPlane_def distanceToPlane_def
      setFromNormalAndCoplanarPoint_def distanceToPoint_def dot_def setDraggedPosition_def
      offModelMove_def markerBehindCamera_def)

theorem C6_no_intersection_moves_marker_witness:
  "dragMarkers (handleMouseMove offModelMove markerBehindCamera)
     \<noteq> dragMarkers markerBehindCamera"
proof
  assume "dragMarkers (handleMouseMove offModelMove markerBehindCamera)
     = dragMarkers markerBehindCamera"
  then have "map markerPosition (dragMarkers (handleMouseMove offModelMove markerBehindCamera))
     = map markerPosition (dragMarkers markerBehindCamera)" by (rule arg_cong)
  with C6_no_intersection_moves_marker have "[Vector3 0 0 0] = [Vector3 1 2 5]"
    by (elim conjE) (simp only:)
  then show False by simp
qed

end
